theory Spec2Isabelle
  imports Main
begin

section \<open>Python strings\<close>

text \<open>
  A Python \<open>str\<close> is a sequence of Unicode code points. The sources mix ASCII and
  Chinese literals, so a string is a list of code points; \<open>ascii\<close> embeds an ASCII
  literal.
\<close>

type_synonym pystr = "nat list"

definition ascii :: "string \<Rightarrow> pystr" where
  "ascii s = map of_char s"

text \<open>\<open>startswith s sub\<close> is Python's \<open>s.startswith(sub)\<close>.\<close>

fun startswith :: "pystr \<Rightarrow> pystr \<Rightarrow> bool" where
  "startswith s [] = True"
| "startswith [] (c # sub) = False"
| "startswith (d # s) (c # sub) = (d = c \<and> startswith s sub)"

text \<open>\<open>str_in sub s\<close> is Python's \<open>sub in s\<close> on strings: \<open>sub\<close> occurs in \<open>s\<close>
  as a contiguous run.\<close>

fun str_in :: "pystr \<Rightarrow> pystr \<Rightarrow> bool" where
  "str_in sub [] = (sub = [])"
| "str_in sub (c # s) = (startswith (c # s) sub \<or> str_in sub s)"

text \<open>\<open>any(x in s for x in xs)\<close>.\<close>

definition any_in :: "pystr list \<Rightarrow> pystr \<Rightarrow> bool" where
  "any_in xs s = list_ex (\<lambda>x. str_in x s) xs"

section \<open>Step validators\<close>

text \<open>
  \<open>step_info\<close> is the dictionary the execution controller and the validators receive;
  the keys read by the sources are \<open>agent_name\<close>, \<open>title\<close> and \<open>details\<close>.
\<close>

record step_info =
  agent_name :: pystr
  title :: pystr
  details :: pystr

text \<open>
  \<open>ExecutionResult\<close> is constructed with keyword arguments only; an argument that a call
  site leaves out is \<open>None\<close>. The type \<open>'d\<close> is that of the data extracted from a
  response by helpers that are not part of the sources.
\<close>

record 'd ExecutionResult =
  success :: bool
  reason :: "pystr option"
  action :: "pystr option"
  next_action :: "pystr option"
  extracted_data :: "'d option"
  image_info :: "'d option"

definition completion_signals_web :: "pystr list" where
  "completion_signals_web =
    [ [0x2705] @ ascii '' '' @ [0x4EFB, 0x52A1, 0x5DF2, 0x5B8C, 0x6210],
      [0x2705] @ ascii '' TASK COMPLETED'',
      [0x26A0, 0xFE0F] @ ascii '' '' @ [0x4EFB, 0x52A1, 0x56E0, 0x9519, 0x8BEF, 0x5B8C, 0x6210],
      [0x26A0, 0xFE0F] @ ascii '' TASK COMPLETED WITH ERRORS'',
      [0x1F504] @ ascii '' '' @ [0x4EFB, 0x52A1, 0x901A, 0x8FC7, 0x66FF, 0x4EE3, 0x65B9, 0x6848, 0x5B8C, 0x6210],
      [0x1F504] @ ascii '' TASK COMPLETED VIA ALTERNATIVE'' ]"

definition info_indicators :: "pystr list" where
  "info_indicators =
    [ [0x4EA7, 0x54C1], [0x76F8, 0x673A], [0x89C4, 0x683C], [0x529F, 0x80FD], [0x7279, 0x70B9] ]"

definition generic_responses :: "pystr list" where
  "generic_responses =
    [ [0x6211, 0x7406, 0x89E3, 0x60A8, 0x9700, 0x8981],
      ascii ''Let me help you'',
      [0x6211, 0x53EF, 0x4EE5, 0x5E2E, 0x52A9, 0x60A8] ]"

text \<open>
  \<open>WebSearchValidator.validate_completion\<close>. The helper \<open>_extract_research_data\<close> is
  not in the sources and is the parameter \<open>extract_research_data\<close>.
\<close>

definition WebSearchValidator_validate_completion ::
  "(pystr \<Rightarrow> 'd) \<Rightarrow> step_info \<Rightarrow> pystr \<Rightarrow> 'd ExecutionResult" where
  "WebSearchValidator_validate_completion extract_research_data si agent_response =
    (let has_completion_signal = any_in completion_signals_web agent_response;
         has_useful_info = any_in info_indicators agent_response
     in if has_completion_signal \<and> has_useful_info then
          \<lparr> success = True,
            reason = Some ([0x7F51, 0x7EDC, 0x641C, 0x7D22, 0x4EFB, 0x52A1, 0x5DF2, 0x5B8C, 0x6210,
                            0xFF0C, 0x83B7, 0x53D6, 0x5230, 0x6709, 0x6548, 0x4FE1, 0x606F]),
            action = None, next_action = None,
            extracted_data = Some (extract_research_data agent_response),
            image_info = None \<rparr>
        else if any_in generic_responses agent_response then
          \<lparr> success = False,
            reason = Some ([0x68C0, 0x6D4B, 0x5230, 0x901A, 0x7528, 0x56DE, 0x590D, 0xFF0C,
                            0x4EFB, 0x52A1, 0x672A, 0x5B8C, 0x6210]),
            action = Some (ascii ''retry_with_enhanced_instruction''), next_action = None,
            extracted_data = None, image_info = None \<rparr>
        else
          \<lparr> success = False,
            reason = Some ([0x672A, 0x68C0, 0x6D4B, 0x5230, 0x660E, 0x786E, 0x7684, 0x5B8C, 0x6210,
                            0x4FE1, 0x53F7]),
            action = None, next_action = None,
            extracted_data = None, image_info = None \<rparr>)"

definition completion_signals_image :: "pystr list" where
  "completion_signals_image =
    [ [0x56FE, 0x50CF, 0x751F, 0x6210, 0x4EFB, 0x52A1, 0x5DF2, 0x5B8C, 0x6210],
      ascii ''image generation complete'',
      [0x56FE, 0x50CF, 0x5DF2, 0x6210, 0x529F, 0x751F, 0x6210],
      ascii ''successfully generated'',
      [0x751F, 0x6210, 0x5B8C, 0x6210],
      ascii ''generation completed'' ]"

definition image_indicators :: "pystr list" where
  "image_indicators =
    [ ascii ''.png'', ascii ''.jpg'', ascii ''.jpeg'', ascii ''image'',
      [0x56FE, 0x50CF], [0x56FE, 0x7247] ]"

text \<open>
  \<open>ImageGenerationValidator.validate_completion\<close>. The helper \<open>_extract_image_info\<close>
  is not in the sources and is the parameter \<open>extract_image_info\<close>.
\<close>

definition ImageGenerationValidator_validate_completion ::
  "(pystr \<Rightarrow> 'd) \<Rightarrow> step_info \<Rightarrow> pystr \<Rightarrow> 'd ExecutionResult" where
  "ImageGenerationValidator_validate_completion extract_image_info si agent_response =
    (let has_completion_signal = any_in completion_signals_image agent_response;
         has_image_reference = any_in image_indicators agent_response
     in if has_completion_signal \<or> has_image_reference then
          \<lparr> success = True,
            reason = Some ([0x56FE, 0x50CF, 0x751F, 0x6210, 0x4EFB, 0x52A1, 0x5DF2, 0x5B8C, 0x6210]),
            action = None, next_action = None,
            extracted_data = None,
            image_info = Some (extract_image_info agent_response) \<rparr>
        else
          \<lparr> success = False,
            reason = Some ([0x56FE, 0x50CF, 0x751F, 0x6210, 0x672A, 0x5B8C, 0x6210]),
            action = None, next_action = None,
            extracted_data = None, image_info = None \<rparr>)"

section \<open>Agent allocation\<close>

text \<open>
  Python's \<open>str.lower\<close> depends on the Unicode case tables, which are not part of the
  sources: functions that call it take it as the parameter \<open>lower\<close>. On a string of
  ASCII characters \<open>str.lower\<close> is \<open>ascii_lower\<close>.
\<close>

definition ascii_lower :: "pystr \<Rightarrow> pystr" where
  "ascii_lower s = map (\<lambda>c. if 65 \<le> c \<and> c \<le> 90 then c + 32 else c) s"

record capabilities =
  primary :: "pystr list"
  keywords_list :: "pystr list"
  output_types :: "pystr list"

text \<open>\<open>SmartAgentAllocator.agent_capabilities\<close>, a dictionary in insertion order.\<close>

definition agent_capabilities :: "(pystr \<times> capabilities) list" where
  "agent_capabilities =
    [ (ascii ''web_surfer'',
        \<lparr> primary = [ [0x7F51, 0x7AD9, 0x8BBF, 0x95EE], [0x5728, 0x7EBF, 0x641C, 0x7D22],
                      [0x4FE1, 0x606F, 0x6536, 0x96C6] ],
          keywords_list = [ [0x8BBF, 0x95EE], [0x641C, 0x7D22], [0x6D4F, 0x89C8], [0x7F51, 0x7AD9],
                       ascii ''te720.com'' ],
          output_types = [ [0x6587, 0x672C, 0x4FE1, 0x606F], [0x4EA7, 0x54C1, 0x6570, 0x636E],
                           [0x89C4, 0x683C, 0x53C2, 0x6570] ] \<rparr>),
      (ascii ''image_generator'',
        \<lparr> primary = [ [0x56FE, 0x50CF, 0x751F, 0x6210], [0x89C6, 0x89C9, 0x521B, 0x4F5C],
                      ascii ''AI'' @ [0x7ED8, 0x56FE] ],
          keywords_list = [ [0x751F, 0x6210], [0x521B, 0x5EFA], [0x7ED8, 0x5236], [0x56FE, 0x50CF],
                       [0x56FE, 0x7247], ascii ''CG'', [0x8BBE, 0x8BA1] ],
          output_types = [ [0x56FE, 0x50CF, 0x6587, 0x4EF6], [0x89C6, 0x89C9, 0x5185, 0x5BB9] ] \<rparr>),
      (ascii ''coder_agent'',
        \<lparr> primary = [ [0x6587, 0x6863, 0x5904, 0x7406], [0x683C, 0x5F0F, 0x8F6C, 0x6362],
                      [0x4EE3, 0x7801, 0x6267, 0x884C] ],
          keywords_list = [ ascii ''markdown'', ascii ''html'', ascii ''pdf'', [0x6587, 0x6863],
                       [0x8F6C, 0x6362], [0x7F16, 0x7A0B] ],
          output_types = [ [0x6587, 0x6863, 0x6587, 0x4EF6], [0x683C, 0x5F0F, 0x5316, 0x5185, 0x5BB9],
                           [0x4EE3, 0x7801, 0x8F93, 0x51FA] ] \<rparr>) ]"

text \<open>The two scoring loops of \<open>allocate_agent\<close> for one agent.\<close>

definition agent_score :: "capabilities \<Rightarrow> pystr \<Rightarrow> int" where
  "agent_score caps combined_text =
    (let score = fold (\<lambda>keyword score. if str_in keyword combined_text then score + 2 else score)
                   (keywords_list caps) 0
     in fold (\<lambda>task_type score. if str_in task_type combined_text then score + 3 else score)
          (primary caps) score)"

text \<open>\<open>max(items, key=...)\<close> on a non-empty sequence: the first item of maximal key.\<close>

fun max_by_key :: "('a \<Rightarrow> int) \<Rightarrow> 'a \<Rightarrow> 'a list \<Rightarrow> 'a" where
  "max_by_key key best [] = best"
| "max_by_key key best (x # xs) = max_by_key key (if key x > key best then x else best) xs"

datatype py_error = KeyError pystr | ValueError | InvalidStateTransition pystr pystr

definition allocate_agent :: "(pystr \<Rightarrow> pystr) \<Rightarrow> step_info \<Rightarrow> py_error + pystr" where
  "allocate_agent lower si =
    (let step_title = lower (title si);
         step_details = lower (details si);
         combined_text = step_title @ ascii '' '' @ step_details;
         scores = map (\<lambda>(agent_name, caps). (agent_name, agent_score caps combined_text))
                    agent_capabilities
     in if any_in [ [0x751F, 0x6210], [0x521B, 0x5EFA], [0x7ED8, 0x5236], [0x56FE, 0x50CF],
                    ascii ''CG'' ] combined_text
           \<and> (str_in [0x56FE, 0x50CF] combined_text \<or> str_in (ascii ''image'') combined_text)
        then Inr (ascii ''image_generator'')
        else if any_in [ [0x8BBF, 0x95EE], [0x641C, 0x7D22], ascii ''te720'', [0x7F51, 0x7AD9] ]
                  combined_text
        then Inr (ascii ''web_surfer'')
        else if any_in [ ascii ''markdown'', ascii ''html'', ascii ''pdf'', [0x8F6C, 0x6362] ]
                  combined_text
        then Inr (ascii ''coder_agent'')
        else (case scores of
                [] \<Rightarrow> Inl ValueError
              | s # rest \<Rightarrow>
                  (let best_agent = max_by_key snd s rest
                   in if snd best_agent > 0 then Inr (fst best_agent)
                      else Inr (ascii ''coder_agent''))))"

section \<open>Execution controller\<close>

text \<open>One record of \<open>ExecutionController.execution_history\<close>.\<close>

record history_entry =
  step_id :: pystr
  timestamp :: nat
  agent :: pystr
  response :: pystr

text \<open>The two mutable fields of \<open>ExecutionController\<close>.\<close>

record controller_state =
  execution_history :: "history_entry list"
  step_attempts :: "pystr \<rightharpoonup> int"

definition initial_controller_state :: controller_state where
  "initial_controller_state = \<lparr> execution_history = [], step_attempts = Map.empty \<rparr>"

datatype validator_kind =
  web_search | image_generation | document_creation | format_conversion | default_validator

text \<open>\<open>ExecutionController._get_validator\<close>: which validator a step is checked by.\<close>

definition get_validator :: "(pystr \<Rightarrow> pystr) \<Rightarrow> step_info \<Rightarrow> validator_kind" where
  "get_validator lower si =
    (let step_content = lower (details si)
     in if agent_name si = ascii ''web_surfer'' then web_search
        else if agent_name si = ascii ''image_generator'' then image_generation
        else if str_in (ascii ''markdown'') step_content \<or> str_in [0x6587, 0x6863] step_content
        then document_creation
        else if str_in (ascii ''html'') step_content \<or> str_in (ascii ''pdf'') step_content
        then format_conversion
        else default_validator)"

text \<open>
  What \<open>ExecutionController\<close> calls and the sources do not define: \<open>str.lower\<close>, the
  clock, the method \<open>_is_repeated_execution\<close> (which sees the controller, the step id
  and the response) and the \<open>validate_completion\<close> method of each validator.
\<close>

record 'd controller_deps =
  lower_fn :: "pystr \<Rightarrow> pystr"
  now :: nat
  is_repeated_execution :: "controller_state \<Rightarrow> pystr \<Rightarrow> pystr \<Rightarrow> bool"
  step_validators :: "validator_kind \<Rightarrow> step_info \<Rightarrow> pystr \<Rightarrow> 'd ExecutionResult"

text \<open>
  \<open>ExecutionController.execute_step\<close>: record the response in the history, return early
  on a repeated execution, otherwise validate and count the attempt.
\<close>

definition execute_step ::
  "'d controller_deps \<Rightarrow> controller_state \<Rightarrow> step_info \<Rightarrow> pystr
     \<Rightarrow> 'd ExecutionResult \<times> controller_state" where
  "execute_step deps st si agent_response =
    (let sid = agent_name si @ ascii ''_'' @ title si;
         st1 = st\<lparr> execution_history := execution_history st @
                 [\<lparr> step_id = sid, timestamp = now deps, agent = agent_name si,
                    response = agent_response \<rparr>] \<rparr>
     in if is_repeated_execution deps st1 sid agent_response then
          (\<lparr> success = False,
             reason = Some ([0x68C0, 0x6D4B, 0x5230, 0x91CD, 0x590D, 0x6267, 0x884C, 0xFF0C,
                             0x8DF3, 0x8FC7, 0x6B64, 0x6B65, 0x9AA4]),
             action = Some (ascii ''continue_to_next''), next_action = None,
             extracted_data = None, image_info = None \<rparr>, st1)
        else
          (let validation_result =
                 step_validators deps (get_validator (lower_fn deps) si) si agent_response;
               st2 = st1\<lparr> step_attempts := (step_attempts st1)
                       (sid \<mapsto> (case step_attempts st1 sid of None \<Rightarrow> 0 | Some n \<Rightarrow> n) + 1) \<rparr>
           in (validation_result, st2)))"

text \<open>
  Modelled from the spec: \<open>_is_repeated_execution\<close> is called by \<open>execute_step\<close> and
  defined nowhere in the sources. The spec's loop rule is that no action may repeat, so
  an execution is repeated when the history, which already holds the current call, has
  the same response for the same step id more than once.
\<close>

definition is_repeated_execution_spec :: "controller_state \<Rightarrow> pystr \<Rightarrow> pystr \<Rightarrow> bool" where
  "is_repeated_execution_spec st sid agent_response =
    (length (filter (\<lambda>e. step_id e = sid \<and> response e = agent_response)
               (execution_history st)) > 1)"

text \<open>
  The validators of the controller: the two the sources define, and the three they only
  name (\<open>DocumentCreationValidator\<close>, \<open>FormatConversionValidator\<close>,
  \<open>DefaultValidator\<close>) as parameters.
\<close>

definition validators_of ::
  "(pystr \<Rightarrow> 'd) \<Rightarrow> (pystr \<Rightarrow> 'd) \<Rightarrow> (step_info \<Rightarrow> pystr \<Rightarrow> 'd ExecutionResult)
     \<Rightarrow> (step_info \<Rightarrow> pystr \<Rightarrow> 'd ExecutionResult) \<Rightarrow> (step_info \<Rightarrow> pystr \<Rightarrow> 'd ExecutionResult)
     \<Rightarrow> validator_kind \<Rightarrow> step_info \<Rightarrow> pystr \<Rightarrow> 'd ExecutionResult" where
  "validators_of extract_research_data extract_image_info doc_v fmt_v dflt_v kind =
    (case kind of
       web_search \<Rightarrow> WebSearchValidator_validate_completion extract_research_data
     | image_generation \<Rightarrow> ImageGenerationValidator_validate_completion extract_image_info
     | document_creation \<Rightarrow> doc_v
     | format_conversion \<Rightarrow> fmt_v
     | default_validator \<Rightarrow> dflt_v)"

section \<open>Step execution manager\<close>

record ('c, 'e) ValidationResult =
  completed :: bool
  confidence :: 'c
  evidence :: 'e

record LoopDetectionResult =
  detected :: bool
  pattern_type :: "pystr option"
  severity :: "pystr option"
  recommendation :: "pystr option"

text \<open>
  \<open>StepStateMachine.transition\<close>; \<open>_can_transition\<close> and \<open>_execute_transition\<close> are
  not in the sources.
\<close>

definition transition ::
  "(pystr \<Rightarrow> pystr \<Rightarrow> 'e \<Rightarrow> bool) \<Rightarrow> (pystr \<Rightarrow> 's) \<Rightarrow> pystr \<Rightarrow> pystr \<Rightarrow> 'e \<Rightarrow> py_error + 's" where
  "transition can_transition execute_transition from_state to_state ev =
    (if can_transition from_state to_state ev then Inr (execute_transition to_state)
     else Inl (InvalidStateTransition from_state to_state))"

text \<open>
  What \<open>StepExecutionManager.execute_step\<close> calls and the sources do not define. Each
  call sits inside the \<open>try\<close> block, so each may raise.
\<close>

record ('si, 'ctx, 'i, 'c, 'e, 's, 'd) manager_deps =
  initialize_step_execution :: "'si \<Rightarrow> py_error + 'i"
  get_agent_response :: "'si \<Rightarrow> 'ctx \<Rightarrow> py_error + pystr"
  validate_step_completion :: "pystr \<Rightarrow> 'si \<Rightarrow> py_error + ('c, 'e) ValidationResult"
  detect_problematic_loops :: "pystr list \<Rightarrow> 'si \<Rightarrow> py_error + LoopDetectionResult"
  can_transition :: "pystr \<Rightarrow> pystr \<Rightarrow> 'e \<Rightarrow> bool"
  execute_transition :: "pystr \<Rightarrow> 's"
  handle_loop_detection :: "LoopDetectionResult \<Rightarrow> 'i \<Rightarrow> py_error + 'd ExecutionResult"
  handle_execution_error :: "py_error \<Rightarrow> 'si \<Rightarrow> 'd ExecutionResult"

text \<open>
  \<open>StepExecutionManager.execute_step\<close>. The result is paired with \<open>new_state\<close>, the
  state the state machine moved to when this call made a transition.
\<close>

definition manager_execute_step ::
  "('si, 'ctx, 'i, 'c, 'e, 's, 'd) manager_deps \<Rightarrow> 'si \<Rightarrow> 'ctx \<Rightarrow> 'd ExecutionResult \<times> 's option" where
  "manager_execute_step deps si context =
    (case initialize_step_execution deps si of
       Inl e \<Rightarrow> (handle_execution_error deps e si, None)
     | Inr execution_info \<Rightarrow>
    (case get_agent_response deps si context of
       Inl e \<Rightarrow> (handle_execution_error deps e si, None)
     | Inr agent_response \<Rightarrow>
    (case validate_step_completion deps agent_response si of
       Inl e \<Rightarrow> (handle_execution_error deps e si, None)
     | Inr validation_result \<Rightarrow>
    (case detect_problematic_loops deps [agent_response] si of
       Inl e \<Rightarrow> (handle_execution_error deps e si, None)
     | Inr loop_result \<Rightarrow>
        if completed validation_result then
          (case transition (can_transition deps) (execute_transition deps)
                  (ascii ''in_progress'') (ascii ''completed'') (evidence validation_result) of
             Inl e \<Rightarrow> (handle_execution_error deps e si, None)
           | Inr new_state \<Rightarrow>
               (\<lparr> success = True, reason = None, action = None,
                  next_action = Some (ascii ''advance''),
                  extracted_data = None, image_info = None \<rparr>, Some new_state))
        else if detected loop_result then
          (case handle_loop_detection deps loop_result execution_info of
             Inl e \<Rightarrow> (handle_execution_error deps e si, None)
           | Inr r \<Rightarrow> (r, None))
        else
          (\<lparr> success = False, reason = None, action = None,
             next_action = Some (ascii ''continue''),
             extracted_data = None, image_info = None \<rparr>, None)))))"

section \<open>Orchestrator step advancement\<close>

datatype step_status = Not_started | In_progress | Completed | Failed | Skipped

text \<open>
  The orchestrator state read and written by the step-completion branch of
  \<open>_orchestrate_step_execution\<close>: the index of the current step, the status of each
  step by index, the evidence recorded for it and the global context (of a type \<open>'c\<close>
  the sources do not show).
\<close>

record 'c OrchestratorState =
  current_step_idx :: int
  step_execution_status :: "int \<rightharpoonup> step_status"
  step_evidence :: "int \<rightharpoonup> pystr \<times> pystr"
  global_context :: 'c

text \<open>
  Modelled from the spec: \<open>_mark_step_completed\<close> is called by the orchestrator and
  defined nowhere in the sources. On approval the evidence is written into the record of
  the step and its status is set to completed; the kind of completion it is given is kept
  with the evidence.
\<close>

definition mark_step_completed ::
  "int \<Rightarrow> pystr \<Rightarrow> pystr \<Rightarrow> 'c OrchestratorState \<Rightarrow> 'c OrchestratorState" where
  "mark_step_completed idx ev kind st =
    st\<lparr> step_execution_status := (step_execution_status st)(idx \<mapsto> Completed),
        step_evidence := (step_evidence st)(idx \<mapsto> (ev, kind)) \<rparr>"

text \<open>
  The completion branch of \<open>_orchestrate_step_execution\<close> as the sources print it: the
  method calls itself after the increment, and the call works on the response it was
  entered with. The check \<open>_is_step_truly_complete\<close> and \<open>_update_global_context\<close>
  are parameters. The sources show this branch only: the recursion ends when the index
  leaves the plan, whose length is the parameter \<open>n_steps\<close>, and where the check does
  not approve the state is returned as it is.
\<close>

function orchestrate_step_execution_recursive ::
  "('c OrchestratorState \<Rightarrow> int \<Rightarrow> pystr \<Rightarrow> bool) \<Rightarrow> (pystr \<Rightarrow> int \<Rightarrow> pystr \<Rightarrow> 'c \<Rightarrow> 'c)
     \<Rightarrow> int \<Rightarrow> 'c OrchestratorState \<Rightarrow> pystr \<Rightarrow> pystr \<Rightarrow> 'c OrchestratorState" where
  "orchestrate_step_execution_recursive is_step_truly_complete update_global_context n_steps st
      actual_agent agent_response =
    (let idx = current_step_idx st
     in if idx < n_steps \<and> is_step_truly_complete st idx agent_response then
          (let st1 = st\<lparr> global_context :=
                       update_global_context actual_agent idx agent_response (global_context st) \<rparr>;
               st2 = mark_step_completed idx (take 200 agent_response) (ascii ''normal'') st1;
               st3 = st2\<lparr> current_step_idx := current_step_idx st2 + 1 \<rparr>
           in orchestrate_step_execution_recursive is_step_truly_complete update_global_context
                n_steps st3 actual_agent agent_response)
        else st)"
  by pat_completeness auto
termination
  by (relation "measure (\<lambda>(chk, upd, n, st, a, r). nat (n - current_step_idx st))")
     (auto simp: mark_step_completed_def)

declare orchestrate_step_execution_recursive.simps [simp del]

section \<open>Boundary controller\<close>

datatype yaml = YInt int | YBool bool | YStr pystr | YList "pystr list"

text \<open>The \<open>task_boundaries\<close> section of the shipped boundary configuration file.\<close>

definition shipped_task_boundaries :: "pystr \<rightharpoonup> (pystr \<rightharpoonup> yaml)" where
  "shipped_task_boundaries = map_of
    [ (ascii ''web_research'',
        map_of
        [ (ascii ''max_actions'', YInt 4),
          (ascii ''time_limit'', YInt 180),
          (ascii ''success_criteria'',
             YList [ [0x627E, 0x5230, 0x4EA7, 0x54C1, 0x4FE1, 0x606F],
                     [0x83B7, 0x53D6, 0x6280, 0x672F, 0x89C4, 0x683C],
                     [0x6536, 0x96C6, 0x4EF7, 0x683C, 0x4FE1, 0x606F],
                     [0x8BBF, 0x95EE, 0x6210, 0x529F] ]),
          (ascii ''stop_conditions'',
             YList [ [0x8BBF, 0x95EE, 0x88AB, 0x963B, 0x6B62],
                     [0x9875, 0x9762, 0x52A0, 0x8F7D, 0x5931, 0x8D25],
                     [0x627E, 0x4E0D, 0x5230, 0x76F8, 0x5173, 0x4FE1, 0x606F] ]),
          (ascii ''autonomous_mode'', YBool True),
          (ascii ''approval_threshold'', YStr (ascii ''low'')) ]),
      (ascii ''image_generation'',
        map_of
        [ (ascii ''max_actions'', YInt 2),
          (ascii ''time_limit'', YInt 60),
          (ascii ''success_criteria'',
             YList [ [0x56FE, 0x50CF, 0x751F, 0x6210, 0x5B8C, 0x6210],
                     [0x56FE, 0x50CF, 0x8D28, 0x91CF, 0x6EE1, 0x8DB3, 0x8981, 0x6C42],
                     [0x751F, 0x6210, 0x4EFB, 0x52A1, 0x5DF2, 0x5B8C, 0x6210] ]),
          (ascii ''stop_conditions'',
             YList [ ascii ''API'' @ [0x8C03, 0x7528, 0x5931, 0x8D25],
                     [0x751F, 0x6210, 0x5185, 0x5BB9, 0x4E0D, 0x5F53],
                     [0x56FE, 0x50CF, 0x751F, 0x6210, 0x9519, 0x8BEF] ]),
          (ascii ''autonomous_mode'', YBool True),
          (ascii ''approval_threshold'', YStr (ascii ''never'')) ]),
      (ascii ''document_creation'',
        map_of
        [ (ascii ''max_actions'', YInt 3),
          (ascii ''time_limit'', YInt 120),
          (ascii ''success_criteria'',
             YList [ [0x6587, 0x6863, 0x521B, 0x5EFA, 0x5B8C, 0x6210],
                     [0x5185, 0x5BB9, 0x683C, 0x5F0F, 0x6B63, 0x786E],
                     [0x4FDD, 0x5B58, 0x6210, 0x529F] ]),
          (ascii ''stop_conditions'',
             YList [ [0x6587, 0x4EF6, 0x4FDD, 0x5B58, 0x5931, 0x8D25],
                     [0x683C, 0x5F0F, 0x8F6C, 0x6362, 0x9519, 0x8BEF] ]),
          (ascii ''autonomous_mode'', YBool True),
          (ascii ''approval_threshold'', YStr (ascii ''low'')) ]),
      (ascii ''code_execution'',
        map_of
        [ (ascii ''max_actions'', YInt 5),
          (ascii ''time_limit'', YInt 300),
          (ascii ''success_criteria'',
             YList [ [0x4EE3, 0x7801, 0x6267, 0x884C, 0x6210, 0x529F],
                     [0x8F93, 0x51FA, 0x7ED3, 0x679C, 0x6B63, 0x786E] ]),
          (ascii ''stop_conditions'',
             YList [ [0x4EE3, 0x7801, 0x6267, 0x884C, 0x9519, 0x8BEF],
                     [0x5B89, 0x5168, 0x98CE, 0x9669, 0x68C0, 0x6D4B] ]),
          (ascii ''autonomous_mode'', YBool False),
          (ascii ''approval_threshold'', YStr (ascii ''high'')) ]),
      (ascii ''default'',
        map_of
        [ (ascii ''max_actions'', YInt 3),
          (ascii ''time_limit'', YInt 150),
          (ascii ''success_criteria'', YList [ [0x4EFB, 0x52A1, 0x5B8C, 0x6210] ]),
          (ascii ''stop_conditions'', YList [ [0x6267, 0x884C, 0x9519, 0x8BEF] ]),
          (ascii ''autonomous_mode'', YBool True),
          (ascii ''approval_threshold'', YStr (ascii ''normal'')) ]) ]"

text \<open>
  The configuration printed beside \<open>ConfigDrivenBoundaryController\<close> in the refactoring
  plan: two entries, and no entry \<open>default\<close>.
\<close>

definition printed_task_boundaries :: "pystr \<rightharpoonup> (pystr \<rightharpoonup> yaml)" where
  "printed_task_boundaries = map_of
    [ (ascii ''web_research'',
        map_of
        [ (ascii ''max_actions'', YInt 4),
          (ascii ''time_limit'', YInt 180),
          (ascii ''success_criteria'',
             YList [ [0x627E, 0x5230, 0x4EA7, 0x54C1, 0x4FE1, 0x606F],
                     [0x83B7, 0x53D6, 0x6280, 0x672F, 0x89C4, 0x683C] ]),
          (ascii ''autonomous_mode'', YBool True) ]),
      (ascii ''image_generation'',
        map_of
        [ (ascii ''max_actions'', YInt 1),
          (ascii ''time_limit'', YInt 60),
          (ascii ''success_criteria'',
             YList [ [0x56FE, 0x50CF, 0x751F, 0x6210, 0x5B8C, 0x6210] ]),
          (ascii ''autonomous_mode'', YBool False) ]) ]"

text \<open>
  A configuration with the entry \<open>default\<close> alone, which gives the three required
  limits and no autonomous mode.
\<close>

definition minimal_entry :: "pystr \<rightharpoonup> yaml" where
  "minimal_entry = map_of
     [ (ascii ''max_actions'', YInt 1),
       (ascii ''time_limit'', YInt 30),
       (ascii ''success_criteria'', YList []) ]"

definition minimal_task_boundaries :: "pystr \<rightharpoonup> (pystr \<rightharpoonup> yaml)" where
  "minimal_task_boundaries = map_of [ (ascii ''default'', minimal_entry) ]"

record BoundarySettings =
  max_actions :: yaml
  time_limit :: yaml
  success_criteria :: yaml
  autonomous_mode :: yaml

text \<open>\<open>d[key]\<close> on a dictionary: the value, or \<open>KeyError\<close>.\<close>

definition getitem :: "(pystr \<rightharpoonup> 'v) \<Rightarrow> pystr \<Rightarrow> py_error + 'v" where
  "getitem d key = (case d key of None \<Rightarrow> Inl (KeyError key) | Some v \<Rightarrow> Inr v)"

text \<open>
  The lookup of \<open>ConfigDrivenBoundaryController.setup_boundaries\<close>: the entry of the
  task type, or the entry \<open>default\<close>, which Python evaluates before the call of
  \<open>get\<close>, so that a configuration without it raises for every task type.
\<close>

definition boundary_settings ::
  "(pystr \<rightharpoonup> (pystr \<rightharpoonup> yaml)) \<Rightarrow> pystr \<Rightarrow> py_error + BoundarySettings" where
  "boundary_settings config task_type =
    (case getitem config (ascii ''default'') of
       Inl e \<Rightarrow> Inl e
     | Inr dflt \<Rightarrow>
    (let boundary_config = (case config task_type of Some c \<Rightarrow> c | None \<Rightarrow> dflt)
     in case getitem boundary_config (ascii ''max_actions'') of
          Inl e \<Rightarrow> Inl e
        | Inr v_max_actions \<Rightarrow>
       (case getitem boundary_config (ascii ''time_limit'') of
          Inl e \<Rightarrow> Inl e
        | Inr v_time_limit \<Rightarrow>
       (case getitem boundary_config (ascii ''success_criteria'') of
          Inl e \<Rightarrow> Inl e
        | Inr v_success_criteria \<Rightarrow>
            Inr \<lparr> max_actions = v_max_actions, time_limit = v_time_limit,
                  success_criteria = v_success_criteria,
                  autonomous_mode =
                    (case boundary_config (ascii ''autonomous_mode'') of
                       Some v \<Rightarrow> v | None \<Rightarrow> YBool False) \<rparr>))))"

text \<open>
  \<open>ConfigDrivenBoundaryController.setup_boundaries\<close>: the settings of the step's task
  type, and the monitor started for the step. \<open>_identify_task_type\<close> and the index of
  a step are parameters, since the sources define neither the method nor the class of
  \<open>step_info\<close>; a monitor is represented by the settings it is built from.
\<close>

definition setup_boundaries ::
  "('si \<Rightarrow> pystr) \<Rightarrow> ('si \<Rightarrow> int) \<Rightarrow> (pystr \<rightharpoonup> (pystr \<rightharpoonup> yaml)) \<Rightarrow> (int \<rightharpoonup> BoundarySettings)
     \<Rightarrow> 'si \<Rightarrow> py_error + BoundarySettings \<times> (int \<rightharpoonup> BoundarySettings)" where
  "setup_boundaries identify_task_type step_index config monitors si =
    (case boundary_settings config (identify_task_type si) of
       Inl e \<Rightarrow> Inl e
     | Inr settings \<Rightarrow> Inr (settings, monitors(step_index si \<mapsto> settings)))"

section \<open>Loop detector\<close>

text \<open>
  Modelled from the spec: the sources call a loop detector and give its rules to the
  agents as prompt text, and define no detector. An action of the current step attempt
  has a signature and says whether it brought a new progress signal (a new extracted
  fact, a new page or state).
\<close>

record action_event =
  signature :: pystr
  progress :: bool

text \<open>
  Modelled from the spec: the configuration of the detector, the number of repeats of a
  signature that make a loop and the length of the rolling window, with the defaults 1
  and 5.
\<close>

record loop_config =
  repeat_threshold :: nat
  window :: nat

definition default_loop_config :: loop_config where
  "default_loop_config = \<lparr> repeat_threshold = 1, window = 5 \<rparr>"

text \<open>
  Modelled from the spec: the result of the detector, with the pattern found and one of
  the two recommendations.
\<close>

datatype loop_recommendation =
  force_complete_with_partial_evidence | abort_and_retry_with_different_approach

record detection =
  loopDetected :: bool
  pattern :: "pystr option"
  recommended :: "loop_recommendation option"

text \<open>
  Modelled from the spec: how often an action signature has been repeated in the
  history, that is, its occurrences after the first.
\<close>

definition repeats :: "action_event list \<Rightarrow> pystr \<Rightarrow> nat" where
  "repeats history sig = count_list (map signature history) sig - 1"

text \<open>
  Modelled from the spec: \<open>LoopDetector.detect\<close>. A loop is flagged when a signature is
  repeated as often as the threshold says (one repeat under the default), or when the
  last \<open>window\<close> actions brought no progress signal. The recommendation is forced
  completion when some action brought progress, abort and retry otherwise.
\<close>

definition detect :: "loop_config \<Rightarrow> action_event list \<Rightarrow> detection" where
  "detect cfg history =
    (let repeated = filter (\<lambda>a. repeats history (signature a) \<ge> repeat_threshold cfg) history;
         stalled = (length history \<ge> window cfg
                    \<and> \<not> list_ex progress (drop (length history - window cfg) history))
     in if repeated \<noteq> [] \<or> stalled then
          \<lparr> loopDetected = True,
            pattern = (case repeated of [] \<Rightarrow> None | a # _ \<Rightarrow> Some (signature a)),
            recommended = Some (if list_ex progress history
                                then force_complete_with_partial_evidence
                                else abort_and_retry_with_different_approach) \<rparr>
        else \<lparr> loopDetected = False, pattern = None, recommended = None \<rparr>)"

section \<open>Abbreviations for results and concrete inputs\<close>

text \<open>The history record that \<open>execute_step\<close> appends.\<close>

definition history_entry_of :: "'d controller_deps \<Rightarrow> step_info \<Rightarrow> pystr \<Rightarrow> history_entry" where
  "history_entry_of deps si agent_response =
     \<lparr> step_id = agent_name si @ ascii ''_'' @ title si, timestamp = now deps,
       agent = agent_name si, response = agent_response \<rparr>"

text \<open>The result \<open>execute_step\<close> returns on a repeated execution.\<close>

definition repeated_result :: "'d ExecutionResult" where
  "repeated_result =
     \<lparr> success = False,
       reason = Some ([0x68C0, 0x6D4B, 0x5230, 0x91CD, 0x590D, 0x6267, 0x884C, 0xFF0C,
                       0x8DF3, 0x8FC7, 0x6B64, 0x6B65, 0x9AA4]),
       action = Some (ascii ''continue_to_next''), next_action = None,
       extracted_data = None, image_info = None \<rparr>"

text \<open>The result the step execution manager returns after the transition to completed.\<close>

definition advance_result :: "'d ExecutionResult" where
  "advance_result =
     \<lparr> success = True, reason = None, action = None, next_action = Some (ascii ''advance''),
       extracted_data = None, image_info = None \<rparr>"

text \<open>The state after the three assignments of the completion branch.\<close>

definition complete_current_step ::
  "(pystr \<Rightarrow> int \<Rightarrow> pystr \<Rightarrow> 'c \<Rightarrow> 'c) \<Rightarrow> 'c OrchestratorState \<Rightarrow> pystr \<Rightarrow> pystr
     \<Rightarrow> 'c OrchestratorState" where
  "complete_current_step upd st a r =
     st\<lparr> global_context := upd a (current_step_idx st) r (global_context st),
         step_execution_status := (step_execution_status st)(current_step_idx st \<mapsto> Completed),
         step_evidence := (step_evidence st)
                            (current_step_idx st \<mapsto> (take 200 r, ascii ''normal'')),
         current_step_idx := current_step_idx st + 1 \<rparr>"

text \<open>The settings of the entry \<open>default\<close> of the shipped configuration.\<close>

definition default_settings :: BoundarySettings where
  "default_settings =
     \<lparr> max_actions = YInt 3, time_limit = YInt 150,
       success_criteria = YList [ [0x4EFB, 0x52A1, 0x5B8C, 0x6210] ],
       autonomous_mode = YBool True \<rparr>"

text \<open>A deflecting answer of 21 characters that mentions an image and reports nothing.\<close>

definition deflecting_image_response :: pystr where
  "deflecting_image_response = ascii ''Let me help you image''"

text \<open>A deflecting answer of 35 characters with a completion signal and the word for
  product.\<close>

definition deflecting_done_response :: pystr where
  "deflecting_done_response =
     ascii ''Let me help you '' @ [0x2705] @ ascii '' TASK COMPLETED '' @ [0x4EA7, 0x54C1]"

definition research_step :: step_info where
  "research_step = \<lparr> agent_name = ascii ''web_surfer'', title = ascii ''research'',
                      details = ascii ''visit te720.com'' \<rparr>"

definition drawing_step :: step_info where
  "drawing_step = \<lparr> agent_name = ascii ''image_generator'', title = ascii ''draw'',
                     details = ascii ''draw the camera'' \<rparr>"

definition research_done_response :: pystr where
  "research_done_response =
     [0x2705] @ ascii '' TASK COMPLETED: '' @ [0x4EA7, 0x54C1, 0x89C4, 0x683C]"

definition drawing_response :: pystr where
  "drawing_response = ascii ''camera.png''"

text \<open>Three steps that ask for an image: one with the words \<open>CG\<close> and \<open>image\<close>
  of the override rule, two in plain English, the second with a document word.\<close>

definition cg_image_step :: step_info where
  "cg_image_step = \<lparr> agent_name = [], title = ascii ''Camera picture'',
                      details = ascii ''Draw a CG image of the 360 camera'' \<rparr>"

definition image_step :: step_info where
  "image_step = \<lparr> agent_name = [], title = ascii ''Generate image'',
                   details = ascii ''generate an image of the 360 camera'' \<rparr>"

definition image_pdf_step :: step_info where
  "image_pdf_step = \<lparr> agent_name = [], title = ascii ''Generate image'',
                       details = ascii ''generate an image for the pdf document'' \<rparr>"

definition rejecting_validator :: "step_info \<Rightarrow> pystr \<Rightarrow> unit ExecutionResult" where
  "rejecting_validator si r =
     \<lparr> success = False, reason = None, action = None, next_action = None,
       extracted_data = None, image_info = None \<rparr>"

text \<open>A controller with the two validators of the sources and the repetition check
  modelled above.\<close>

definition example_deps :: "unit controller_deps" where
  "example_deps =
     \<lparr> lower_fn = ascii_lower, now = 0, is_repeated_execution = is_repeated_execution_spec,
       step_validators = validators_of (\<lambda>r. ()) (\<lambda>r. ()) rejecting_validator
                           rejecting_validator rejecting_validator \<rparr>"

definition first_call :: "unit ExecutionResult \<times> controller_state" where
  "first_call = execute_step example_deps initial_controller_state research_step
                  research_done_response"

definition second_call :: "unit ExecutionResult \<times> controller_state" where
  "second_call = execute_step example_deps (snd first_call) research_step
                   research_done_response"

definition next_step_call :: "unit ExecutionResult \<times> controller_state" where
  "next_step_call = execute_step example_deps (snd first_call) drawing_step drawing_response"

text \<open>Collaborators of the step execution manager for a response that the validation
  engine approves and in which the loop detector finds a loop.\<close>

definition looping_deps :: "(unit, unit, unit, unit, unit, pystr, unit) manager_deps" where
  "looping_deps =
     \<lparr> initialize_step_execution = (\<lambda>si. Inr ()),
       get_agent_response = (\<lambda>si ctx. Inr (ascii ''clicked the same link again'')),
       validate_step_completion =
         (\<lambda>r si. Inr \<lparr> completed = True, confidence = (), evidence = () \<rparr>),
       detect_problematic_loops =
         (\<lambda>rs si. Inr \<lparr> detected = True, pattern_type = None, severity = None,
                         recommendation = None \<rparr>),
       can_transition = (\<lambda>from_state to_state ev. True),
       execute_transition = (\<lambda>to_state. to_state),
       handle_loop_detection = (\<lambda>lr i. Inr repeated_result),
       handle_execution_error = (\<lambda>e si. repeated_result) \<rparr>"

text \<open>The same collaborators with a validation engine that does not approve.\<close>

definition looping_unapproved_deps ::
  "(unit, unit, unit, unit, unit, pystr, unit) manager_deps" where
  "looping_unapproved_deps =
     looping_deps\<lparr> validate_step_completion :=
       (\<lambda>r si. Inr \<lparr> completed = False, confidence = (), evidence = () \<rparr>) \<rparr>"

text \<open>The same collaborators with a state machine that refuses the transition.\<close>

definition refusing_deps ::
  "(unit, unit, unit, unit, unit, pystr, unit) manager_deps" where
  "refusing_deps = looping_deps\<lparr> can_transition := (\<lambda>from_state to_state ev. False) \<rparr>"

text \<open>The same collaborators with a validation engine that does not approve and a loop
  detector that finds no loop.\<close>

definition quiet_deps ::
  "(unit, unit, unit, unit, unit, pystr, unit) manager_deps" where
  "quiet_deps =
     looping_unapproved_deps\<lparr> detect_problematic_loops :=
       (\<lambda>rs si. Inr \<lparr> detected = False, pattern_type = None, severity = None,
                       recommendation = None \<rparr>) \<rparr>"

text \<open>The result the step execution manager returns when nothing is decided.\<close>

definition continue_result :: "'d ExecutionResult" where
  "continue_result =
     \<lparr> success = False, reason = None, action = None, next_action = Some (ascii ''continue''),
       extracted_data = None, image_info = None \<rparr>"

text \<open>An orchestrator at the start of a plan, with a global context that keeps the
  responses it is updated with.\<close>

definition keep_response :: "pystr \<Rightarrow> int \<Rightarrow> pystr \<Rightarrow> pystr list \<Rightarrow> pystr list" where
  "keep_response actual_agent idx agent_response ctx = ctx @ [agent_response]"

definition start_state :: "pystr list OrchestratorState" where
  "start_state =
     \<lparr> current_step_idx = 0, step_execution_status = Map.empty, step_evidence = Map.empty,
       global_context = [] \<rparr>"

text \<open>A completion check that looks at the response only, for the keyword that says a
  document has been created; the response of the coder to the fourth step (index 3) of a
  plan of six steps; the orchestrator when that response arrives, and after the one call
  of the method on it.\<close>

definition keyword_check :: "pystr list OrchestratorState \<Rightarrow> int \<Rightarrow> pystr \<Rightarrow> bool" where
  "keyword_check st idx agent_response =
     str_in [0x6587, 0x6863, 0x521B, 0x5EFA, 0x4EFB, 0x52A1, 0x5DF2, 0x5B8C, 0x6210]
       agent_response"

definition markdown_done_response :: pystr where
  "markdown_done_response =
     ascii ''saved intro.md '' @
     [0x6587, 0x6863, 0x521B, 0x5EFA, 0x4EFB, 0x52A1, 0x5DF2, 0x5B8C, 0x6210]"

definition at_step_four :: "pystr list OrchestratorState" where
  "at_step_four = start_state\<lparr> current_step_idx := 3 \<rparr>"

definition after_step_four :: "pystr list OrchestratorState" where
  "after_step_four =
     orchestrate_step_execution_recursive keyword_check keep_response 6 at_step_four
       (ascii ''coder_agent'') markdown_done_response"

text \<open>Two actions of one step attempt with the same signature.\<close>

definition repeating_actions :: "action_event list" where
  "repeating_actions =
     [ \<lparr> signature = ascii ''click:samples'', progress = True \<rparr>,
       \<lparr> signature = ascii ''click:samples'', progress = False \<rparr> ]"

section \<open>Properties of the string operations\<close>

lemma startswith_iff: "startswith s sub \<longleftrightarrow> (\<exists>post. s = sub @ post)"
  by (induction s sub rule: startswith.induct) auto

lemma str_in_iff: "str_in sub s \<longleftrightarrow> (\<exists>pre post. s = pre @ sub @ post)"
proof (induction s)
  case Nil
  then show ?case by auto
next
  case (Cons c s)
  show ?case
  proof
    assume "str_in sub (c # s)"
    then consider "startswith (c # s) sub" | "str_in sub s" by auto
    then show "\<exists>pre post. c # s = pre @ sub @ post"
    proof cases
      case 1
      then obtain post where "c # s = sub @ post" by (auto simp: startswith_iff)
      then have "c # s = [] @ sub @ post" by simp
      then show ?thesis by blast
    next
      case 2
      then obtain pre post where "s = pre @ sub @ post" using Cons.IH by blast
      then have "c # s = (c # pre) @ sub @ post" by simp
      then show ?thesis by blast
    qed
  next
    assume "\<exists>pre post. c # s = pre @ sub @ post"
    then obtain pre post where eq: "c # s = pre @ sub @ post" by blast
    show "str_in sub (c # s)"
    proof (cases pre)
      case Nil
      with eq have "startswith (c # s) sub" by (auto simp: startswith_iff)
      then show ?thesis by simp
    next
      case (Cons d pre')
      with eq have "s = pre' @ sub @ post" by simp
      then have "str_in sub s" using Cons.IH by blast
      then show ?thesis by simp
    qed
  qed
qed

lemma any_in_iff: "any_in xs s \<longleftrightarrow> (\<exists>x \<in> set xs. str_in x s)"
  by (simp add: any_in_def list_ex_iff)

section \<open>Image generation validator\<close>

lemma image_validator_success_iff:
  "success (ImageGenerationValidator_validate_completion ex si r)
     \<longleftrightarrow> any_in completion_signals_image r \<or> any_in image_indicators r"
  by (simp add: ImageGenerationValidator_validate_completion_def)

lemma deflecting_image_response_generic:
  "any_in generic_responses deflecting_image_response"
  by (simp add: any_in_def generic_responses_def deflecting_image_response_def ascii_def)

lemma deflecting_image_response_no_signal:
  "\<not> any_in completion_signals_image deflecting_image_response"
  by (simp add: any_in_def completion_signals_image_def deflecting_image_response_def ascii_def)

text \<open>
  Claim C10. A response that contains one of the image indicators \<open>.png\<close>, \<open>.jpg\<close>,
  \<open>.jpeg\<close>, \<open>image\<close> or one of the two Chinese words for image is approved by
  \<open>ImageGenerationValidator.validate_completion\<close>, whatever else it contains or lacks:
  the condition of approval is a disjunction of the completion signal and the image
  reference.
\<close>

theorem image_validator_approves_on_image_reference:
  assumes "ind \<in> {ascii ''.png'', ascii ''.jpg'', ascii ''.jpeg'', ascii ''image'',
                   [0x56FE, 0x50CF], [0x56FE, 0x7247]}"
    and "str_in ind agent_response"
  shows "success (ImageGenerationValidator_validate_completion extract_image_info si
                    agent_response) = True"
proof -
  from assms(1) have "ind \<in> set image_indicators"
    by (simp add: image_indicators_def)
  with assms(2) have "any_in image_indicators agent_response"
    by (auto simp: any_in_iff)
  then show ?thesis
    by (simp add: image_validator_success_iff)
qed

text \<open>
  The theorem at a response of 21 characters that matches a generic pattern and holds no
  completion signal.
\<close>

theorem image_validator_approves_on_image_reference_witness:
  "ascii ''image'' \<in> {ascii ''.png'', ascii ''.jpg'', ascii ''.jpeg'', ascii ''image'',
                   [0x56FE, 0x50CF], [0x56FE, 0x7247]}
   \<and> str_in (ascii ''image'') deflecting_image_response
   \<and> \<not> any_in completion_signals_image deflecting_image_response
   \<and> any_in generic_responses deflecting_image_response
   \<and> length deflecting_image_response = 21
   \<and> success (ImageGenerationValidator_validate_completion (\<lambda>r. ())
                 \<lparr>agent_name = ascii ''image_generator'', title = [], details = []\<rparr>
                 deflecting_image_response) = True"
proof -
  have a: "ascii ''image'' \<in> {ascii ''.png'', ascii ''.jpg'', ascii ''.jpeg'', ascii ''image'',
                   [0x56FE, 0x50CF], [0x56FE, 0x7247]}" by simp
  have b: "str_in (ascii ''image'') deflecting_image_response"
    by (simp add: deflecting_image_response_def ascii_def)
  have c: "length deflecting_image_response = 21"
    by (simp add: deflecting_image_response_def ascii_def)
  show ?thesis
    using image_validator_approves_on_image_reference [OF a b] a b c
      deflecting_image_response_generic deflecting_image_response_no_signal
    by blast
qed

section \<open>Web search validator\<close>

lemma web_validator_success_iff:
  "success (WebSearchValidator_validate_completion ex si r)
     \<longleftrightarrow> any_in completion_signals_web r \<and> any_in info_indicators r"
  by (simp add: WebSearchValidator_validate_completion_def)

text \<open>
  Claim C5 does not hold of the code. \<open>WebSearchValidator.validate_completion\<close>
  returns its approval before it looks for a generic reply, and it measures no length: a
  reply of 35 characters that matches the generic pattern \<open>Let me help you\<close> is
  approved as soon as it also holds a completion signal and an information indicator.
\<close>

theorem web_validator_approves_short_generic_reply:
  "length deflecting_done_response = 35
   \<and> str_in (ascii ''Let me help you'') deflecting_done_response
   \<and> any_in generic_responses deflecting_done_response
   \<and> success (WebSearchValidator_validate_completion (\<lambda>r. ()) research_step
                 deflecting_done_response) = True"
  by (simp add: web_validator_success_iff any_in_def generic_responses_def
        completion_signals_web_def info_indicators_def deflecting_done_response_def ascii_def)

section \<open>Agent allocator\<close>

text \<open>The override rule of \<open>allocate_agent\<close> fires on the Chinese word for image.\<close>

lemma allocate_agent_image_override:
  assumes "str_in [0x56FE, 0x50CF] (lower (title si) @ ascii '' '' @ lower (details si))"
  shows "allocate_agent lower si = Inr (ascii ''image_generator'')"
  using assms by (simp add: allocate_agent_def any_in_def Let_def)

text \<open>A lowered text holds no capital letter, so the word \<open>CG\<close> of the override
  rule is never found in it.\<close>

lemma CG_not_in_lowered: "\<not> str_in (ascii ''CG'') (ascii_lower s)"
proof
  assume "str_in (ascii ''CG'') (ascii_lower s)"
  then obtain pre post where "ascii_lower s = pre @ ascii ''CG'' @ post"
    by (auto simp: str_in_iff)
  then have "67 \<in> set (ascii_lower s)"
    by (simp add: ascii_def)
  then show False
    by (auto simp: ascii_lower_def split: if_splits)
qed

text \<open>
  Claim C7 does not hold of the code. The words that open the override rule of
  \<open>allocate_agent\<close> are four Chinese words and \<open>CG\<close>, and the text they are looked
  for in has been lowered: an instruction with the words \<open>CG\<close> and \<open>image\<close> of the
  rule does not trigger it, nor does an English instruction to generate an image, with or
  without document words. All three are given to \<open>coder_agent\<close>.
\<close>

theorem allocate_agent_misroutes_image_instructions:
  "str_in (ascii ''CG'') (details cg_image_step)
   \<and> str_in (ascii ''image'') (details cg_image_step)
   \<and> allocate_agent ascii_lower cg_image_step = Inr (ascii ''coder_agent'')
   \<and> str_in (ascii ''generate an image'') (ascii_lower (details image_step))
   \<and> allocate_agent ascii_lower image_step = Inr (ascii ''coder_agent'')
   \<and> str_in (ascii ''generate an image'') (ascii_lower (details image_pdf_step))
   \<and> allocate_agent ascii_lower image_pdf_step = Inr (ascii ''coder_agent'')"
  by (simp add: allocate_agent_def cg_image_step_def image_step_def image_pdf_step_def
        ascii_lower_def any_in_def ascii_def agent_capabilities_def agent_score_def)

section \<open>Orchestrator: the recursive call\<close>

lemma recursive_unfold:
  "orchestrate_step_execution_recursive chk upd n st a r =
     (if current_step_idx st < n \<and> chk st (current_step_idx st) r
      then orchestrate_step_execution_recursive chk upd n (complete_current_step upd st a r) a r
      else st)"
  by (subst orchestrate_step_execution_recursive.simps)
     (simp add: complete_current_step_def mark_step_completed_def Let_def)

lemma complete_idx [simp]:
  "current_step_idx (complete_current_step upd st a r) = current_step_idx st + 1"
  by (simp add: complete_current_step_def)

lemma complete_status [simp]:
  "step_execution_status (complete_current_step upd st a r)
     = (step_execution_status st)(current_step_idx st \<mapsto> Completed)"
  by (simp add: complete_current_step_def)

lemma complete_evidence [simp]:
  "step_evidence (complete_current_step upd st a r)
     = (step_evidence st)(current_step_idx st \<mapsto> (take 200 r, ascii ''normal''))"
  by (simp add: complete_current_step_def)

lemma complete_context [simp]:
  "global_context (complete_current_step upd st a r)
     = upd a (current_step_idx st) r (global_context st)"
  by (simp add: complete_current_step_def)

lemma recursive_stop:
  "\<not> (current_step_idx st < n \<and> chk st (current_step_idx st) r)
     \<Longrightarrow> orchestrate_step_execution_recursive chk upd n st a r = st"
  by (subst recursive_unfold) auto

lemma recursive_go:
  "current_step_idx st < n \<and> chk st (current_step_idx st) r
     \<Longrightarrow> orchestrate_step_execution_recursive chk upd n st a r
         = orchestrate_step_execution_recursive chk upd n (complete_current_step upd st a r) a r"
  by (subst recursive_unfold) auto

text \<open>What lies below the index the method is entered with is left as it is.\<close>

lemma recursive_kept:
  "k < current_step_idx st \<Longrightarrow>
     step_execution_status (orchestrate_step_execution_recursive chk upd n st a r) k
       = step_execution_status st k
     \<and> step_evidence (orchestrate_step_execution_recursive chk upd n st a r) k
       = step_evidence st k"
proof (induction "nat (n - current_step_idx st)" arbitrary: st rule: less_induct)
  case less
  show ?case
  proof (cases "current_step_idx st < n \<and> chk st (current_step_idx st) r")
    case True
    let ?st' = "complete_current_step upd st a r"
    from True have m: "nat (n - current_step_idx ?st') < nat (n - current_step_idx st)"
      by simp
    from less.prems have "k < current_step_idx ?st'" by simp
    with m have "step_execution_status (orchestrate_step_execution_recursive chk upd n ?st' a r) k
                   = step_execution_status ?st' k
       \<and> step_evidence (orchestrate_step_execution_recursive chk upd n ?st' a r) k
                   = step_evidence ?st' k"
      by (rule less.hyps)
    moreover have "orchestrate_step_execution_recursive chk upd n st a r
                = orchestrate_step_execution_recursive chk upd n ?st' a r"
      using True by (rule recursive_go)
    ultimately show ?thesis
      using less.prems by simp
  next
    case False
    then show ?thesis by (simp add: recursive_stop)
  qed
qed

text \<open>
  Every step between the index the method is entered with and the index it returns is
  completed, with the one response of the call as its evidence.
\<close>

lemma recursive_passed:
  "current_step_idx st \<le> k
     \<Longrightarrow> k < current_step_idx (orchestrate_step_execution_recursive chk upd n st a r)
     \<Longrightarrow> step_execution_status (orchestrate_step_execution_recursive chk upd n st a r) k
           = Some Completed
         \<and> step_evidence (orchestrate_step_execution_recursive chk upd n st a r) k
           = Some (take 200 r, ascii ''normal'')
         \<and> (\<exists>s'. current_step_idx s' = k \<and> chk s' k r)"
proof (induction "nat (n - current_step_idx st)" arbitrary: st rule: less_induct)
  case less
  show ?case
  proof (cases "current_step_idx st < n \<and> chk st (current_step_idx st) r")
    case True
    let ?st' = "complete_current_step upd st a r"
    have eq: "orchestrate_step_execution_recursive chk upd n st a r
                = orchestrate_step_execution_recursive chk upd n ?st' a r"
      using True by (rule recursive_go)
    from True have m: "nat (n - current_step_idx ?st') < nat (n - current_step_idx st)"
      by simp
    show ?thesis
    proof (cases "k = current_step_idx st")
      case True
      then have "k < current_step_idx ?st'" by simp
      then have "step_execution_status (orchestrate_step_execution_recursive chk upd n ?st' a r) k
                   = step_execution_status ?st' k
         \<and> step_evidence (orchestrate_step_execution_recursive chk upd n ?st' a r) k
                   = step_evidence ?st' k"
        by (rule recursive_kept)
      moreover have "\<exists>s'. current_step_idx s' = k \<and> chk s' k r"
        using True \<open>current_step_idx st < n \<and> chk st (current_step_idx st) r\<close> by blast
      ultimately show ?thesis
        using True by (simp add: eq)
    next
      case False
      with less.prems(1) have "current_step_idx ?st' \<le> k" by simp
      moreover from less.prems(2)
      have "k < current_step_idx (orchestrate_step_execution_recursive chk upd n ?st' a r)"
        by (simp add: eq)
      ultimately show ?thesis
        using less.hyps [OF m] by (simp add: eq)
    qed
  next
    case False
    then have "orchestrate_step_execution_recursive chk upd n st a r = st"
      by (rule recursive_stop)
    with less.prems show ?thesis by simp
  qed
qed

lemma keyword_check_markdown: "keyword_check st idx markdown_done_response"
  by (simp add: keyword_check_def markdown_done_response_def ascii_def)

lemma markdown_take: "take 200 markdown_done_response = markdown_done_response"
  by (simp add: markdown_done_response_def ascii_def)

lemma after_step_four_idx: "current_step_idx after_step_four = 6"
  unfolding after_step_four_def at_step_four_def start_state_def
  by (simp add: recursive_go recursive_stop keyword_check_markdown)

lemma after_step_four_context:
  "global_context after_step_four
     = [markdown_done_response, markdown_done_response, markdown_done_response]"
  unfolding after_step_four_def at_step_four_def start_state_def
  by (simp add: recursive_go recursive_stop keyword_check_markdown keep_response_def)

lemma after_step_four_passed:
  "step_execution_status after_step_four 4 = Some Completed
   \<and> step_evidence after_step_four 4 = Some (markdown_done_response, ascii ''normal'')
   \<and> step_execution_status after_step_four 5 = Some Completed
   \<and> step_evidence after_step_four 5 = Some (markdown_done_response, ascii ''normal'')"
proof -
  have i3: "current_step_idx at_step_four = 3"
    by (simp add: at_step_four_def)
  have "current_step_idx at_step_four \<le> 4" "current_step_idx at_step_four \<le> 5"
    by (simp_all add: i3)
  moreover have
    "4 < current_step_idx (orchestrate_step_execution_recursive keyword_check keep_response 6
           at_step_four (ascii ''coder_agent'') markdown_done_response)"
    "5 < current_step_idx (orchestrate_step_execution_recursive keyword_check keep_response 6
           at_step_four (ascii ''coder_agent'') markdown_done_response)"
    using after_step_four_idx by (simp_all add: after_step_four_def)
  ultimately show ?thesis
    using recursive_passed [of at_step_four 4 keyword_check keep_response 6
            "ascii ''coder_agent''" markdown_done_response]
          recursive_passed [of at_step_four 5 keyword_check keep_response 6
            "ascii ''coder_agent''" markdown_done_response]
    by (simp add: after_step_four_def markdown_take)
qed

section \<open>Orchestrator: the index of the current step\<close>


section \<open>Completion and the response of the step\<close>

text \<open>
  Claim C8 does not hold of the code. When the response for the step of index 3 arrives,
  the steps of index 4 and 5 have no status. After the one call of
  \<open>_orchestrate_step_execution\<close> on that response both are completed, and the only
  response the call has used, three times, is that of the step of index 3: the two steps
  are completed on no response of their own.
\<close>

theorem steps_completed_on_response_of_earlier_step:
  "current_step_idx at_step_four = 3
   \<and> step_execution_status at_step_four 4 = None
   \<and> step_execution_status at_step_four 5 = None
   \<and> global_context at_step_four = []
   \<and> step_execution_status after_step_four 4 = Some Completed
   \<and> step_execution_status after_step_four 5 = Some Completed
   \<and> global_context after_step_four
       = [markdown_done_response, markdown_done_response, markdown_done_response]"
  using after_step_four_passed after_step_four_context
  by (simp add: at_step_four_def start_state_def)

section \<open>Execution controller: history and repeated calls\<close>

lemma execute_step_history:
  "execution_history (snd (execute_step deps st si r))
     = execution_history st @ [history_entry_of deps si r]"
  by (simp add: execute_step_def history_entry_of_def Let_def)

text \<open>Every call of \<open>execute_step\<close> makes the history longer by one record, whatever
  the repetition check and the validators answer.\<close>

lemma execute_step_always_appends:
  "length (execution_history (snd (execute_step deps st si r)))
     = Suc (length (execution_history st))"
  by (simp add: execute_step_history)

lemma first_call_eval:
  "first_call =
     (\<lparr> success = True,
        reason = Some ([0x7F51, 0x7EDC, 0x641C, 0x7D22, 0x4EFB, 0x52A1, 0x5DF2, 0x5B8C, 0x6210,
                        0xFF0C, 0x83B7, 0x53D6, 0x5230, 0x6709, 0x6548, 0x4FE1, 0x606F]),
        action = None, next_action = None, extracted_data = Some (), image_info = None \<rparr>,
      \<lparr> execution_history = [history_entry_of example_deps research_step research_done_response],
        step_attempts = [ascii ''web_surfer_research'' \<mapsto> 1] \<rparr>)"
  by (simp add: first_call_def execute_step_def example_deps_def initial_controller_state_def
        research_step_def research_done_response_def is_repeated_execution_spec_def
        get_validator_def validators_of_def WebSearchValidator_validate_completion_def
        any_in_def completion_signals_web_def info_indicators_def history_entry_of_def ascii_def
        Let_def)

lemma second_call_repeated:
  "is_repeated_execution example_deps
     ((snd first_call)\<lparr> execution_history := execution_history (snd first_call) @
         [history_entry_of example_deps research_step research_done_response] \<rparr>)
     (agent_name research_step @ ascii ''_'' @ title research_step) research_done_response"
  by (simp add: first_call_eval)
     (simp add: example_deps_def research_step_def is_repeated_execution_spec_def
        history_entry_of_def ascii_def)

lemma second_call_eval:
  "second_call =
     (repeated_result,
      \<lparr> execution_history = [history_entry_of example_deps research_step research_done_response,
                             history_entry_of example_deps research_step research_done_response],
        step_attempts = [ascii ''web_surfer_research'' \<mapsto> 1] \<rparr>)"
  by (simp add: second_call_def first_call_eval execute_step_def repeated_result_def)
     (simp add: example_deps_def research_step_def is_repeated_execution_spec_def
        history_entry_of_def ascii_def Let_def)

text \<open>
  Claim C2 does not hold of the code. \<open>execute_step\<close> appends to one history and no code
  clears it: after the research step, the history that the call for the drawing step
  works on still holds the response of the research step. And the completion branch with
  the recursive call evaluates the response of a step against the steps that follow: with
  a check that looks at the response only, the response to the fourth step of six
  completes the fifth and the sixth step as well and is recorded as their evidence.
\<close>

theorem history_keeps_response_of_previous_step:
  "map (\<lambda>e. (step_id e, response e)) (execution_history (snd next_step_call))
     = [(ascii ''web_surfer_research'', research_done_response),
        (ascii ''image_generator_draw'', drawing_response)]
   \<and> current_step_idx at_step_four = 3
   \<and> current_step_idx after_step_four = 6
   \<and> step_evidence after_step_four 4 = Some (markdown_done_response, ascii ''normal'')
   \<and> step_evidence after_step_four 5 = Some (markdown_done_response, ascii ''normal'')"
proof -
  have "map (\<lambda>e. (step_id e, response e)) (execution_history (snd next_step_call))
     = [(ascii ''web_surfer_research'', research_done_response),
        (ascii ''image_generator_draw'', drawing_response)]"
    by (simp add: next_step_call_def execute_step_history first_call_eval history_entry_of_def
          research_step_def drawing_step_def ascii_def)
  moreover have "current_step_idx at_step_four = 3"
    by (simp add: at_step_four_def)
  ultimately show ?thesis
    using after_step_four_idx after_step_four_passed by simp
qed

text \<open>
  Claim C4, as stated, fails: the first call of \<open>execute_step\<close> on the research step is
  approved; the second call with the same step and response returns another result and
  leaves another history.
\<close>

theorem second_call_differs_and_mutates_counterexample:
  "success (fst first_call) = True
   \<and> fst second_call \<noteq> fst first_call
   \<and> execution_history (snd second_call) \<noteq> execution_history (snd first_call)"
  by (simp add: first_call_eval second_call_eval repeated_result_def)

text \<open>
  Claim C4, amended. A call of \<open>execute_step\<close> that the repeated-execution check
  recognises returns the result of a repeated execution (no success, action
  \<open>continue_to_next\<close>), leaves the attempt counters as they are, and appends one record
  to the execution history.
\<close>

theorem repeated_call_skips_validation_and_appends_history:
  assumes "is_repeated_execution deps
             (st\<lparr> execution_history := execution_history st @
                    [history_entry_of deps si agent_response] \<rparr>)
             (agent_name si @ ascii ''_'' @ title si) agent_response"
  shows "fst (execute_step deps st si agent_response) = repeated_result
       \<and> step_attempts (snd (execute_step deps st si agent_response)) = step_attempts st
       \<and> execution_history (snd (execute_step deps st si agent_response))
           = execution_history st @ [history_entry_of deps si agent_response]"
  using assms by (simp add: execute_step_def history_entry_of_def repeated_result_def Let_def)

theorem repeated_call_skips_validation_and_appends_history_witness:
  "is_repeated_execution example_deps
     ((snd first_call)\<lparr> execution_history := execution_history (snd first_call) @
         [history_entry_of example_deps research_step research_done_response] \<rparr>)
     (agent_name research_step @ ascii ''_'' @ title research_step) research_done_response
   \<and> fst second_call = repeated_result
   \<and> step_attempts (snd second_call) = step_attempts (snd first_call)
   \<and> execution_history (snd second_call)
       = execution_history (snd first_call) @
           [history_entry_of example_deps research_step research_done_response]"
  using repeated_call_skips_validation_and_appends_history [OF second_call_repeated]
    second_call_repeated
  by (simp add: second_call_def)

section \<open>Loop check and validation: which comes first\<close>

text \<open>
  Claim C3, as stated, fails: in \<open>StepExecutionManager.execute_step\<close> the validation
  engine is asked first, and a response it approves is completed although the loop
  detector finds a loop in it.
\<close>

theorem manager_approves_looping_response_counterexample:
  "detect_problematic_loops looping_deps [ascii ''clicked the same link again''] ()
     = Inr \<lparr> detected = True, pattern_type = None, severity = None, recommendation = None \<rparr>
   \<and> manager_execute_step looping_deps () () = (advance_result, Some (ascii ''completed''))"
  by (simp add: manager_execute_step_def looping_deps_def transition_def advance_result_def)

text \<open>
  Claim C3, amended. In \<open>ExecutionController.execute_step\<close> the repeated-execution check
  comes before the validator: when it fires, the outcome does not depend on the
  validators, is not a success and has the action \<open>continue_to_next\<close>. In
  \<open>StepExecutionManager.execute_step\<close>, when its collaborators return without raising,
  the validation engine comes before the loop detector and its approval takes precedence:
  an approved response never reaches the loop handling, whatever the loop detector says;
  it is completed (next action \<open>advance\<close>) when the state machine accepts the transition
  from \<open>in_progress\<close> to \<open>completed\<close>, and is handed to the error handler as an invalid
  transition when it does not. The loop result decides only when the engine does not
  approve: a detected loop goes to the loop handling, and no loop gives the next action
  \<open>continue\<close>.
\<close>

theorem loop_check_and_validation_order:
  "(is_repeated_execution deps
      (st\<lparr> execution_history := execution_history st @
             [history_entry_of deps si agent_response] \<rparr>)
      (agent_name si @ ascii ''_'' @ title si) agent_response
    \<longrightarrow> execute_step (deps\<lparr> step_validators := v \<rparr>) st si agent_response
          = execute_step deps st si agent_response
        \<and> success (fst (execute_step deps st si agent_response)) = False
        \<and> action (fst (execute_step deps st si agent_response))
            = Some (ascii ''continue_to_next''))
   \<and> (initialize_step_execution mdeps msi = Inr info
        \<and> get_agent_response mdeps msi ctx = Inr r
        \<and> validate_step_completion mdeps r msi = Inr vr
        \<and> detect_problematic_loops mdeps [r] msi = Inr lr
      \<longrightarrow> (completed vr
             \<longrightarrow> manager_execute_step mdeps msi ctx
                   = (if can_transition mdeps (ascii ''in_progress'') (ascii ''completed'')
                           (evidence vr)
                      then (advance_result, Some (execute_transition mdeps (ascii ''completed'')))
                      else (handle_execution_error mdeps
                              (InvalidStateTransition (ascii ''in_progress'')
                                 (ascii ''completed'')) msi, None)))
          \<and> (\<not> completed vr \<and> detected lr
             \<longrightarrow> manager_execute_step mdeps msi ctx
                   = (case handle_loop_detection mdeps lr info of
                        Inl e \<Rightarrow> (handle_execution_error mdeps e msi, None)
                      | Inr res \<Rightarrow> (res, None)))
          \<and> (\<not> completed vr \<and> \<not> detected lr
             \<longrightarrow> manager_execute_step mdeps msi ctx = (continue_result, None)))"
  by (simp add: execute_step_def history_entry_of_def manager_execute_step_def
        transition_def advance_result_def continue_result_def Let_def)

theorem loop_check_and_validation_order_witness:
  "is_repeated_execution example_deps
     ((snd first_call)\<lparr> execution_history := execution_history (snd first_call) @
         [history_entry_of example_deps research_step research_done_response] \<rparr>)
     (agent_name research_step @ ascii ''_'' @ title research_step) research_done_response
   \<and> execute_step (example_deps\<lparr> step_validators := (\<lambda>kind. rejecting_validator) \<rparr>)
         (snd first_call) research_step research_done_response = second_call
   \<and> success (fst second_call) = False
   \<and> action (fst second_call) = Some (ascii ''continue_to_next'')
   \<and> manager_execute_step looping_deps () () = (advance_result, Some (ascii ''completed''))
   \<and> manager_execute_step refusing_deps () () = (repeated_result, None)
   \<and> manager_execute_step looping_unapproved_deps () () = (repeated_result, None)
   \<and> manager_execute_step quiet_deps () () = (continue_result, None)"
proof -
  let ?loop = "\<lparr> detected = True, pattern_type = None, severity = None,
                  recommendation = None \<rparr>"
  let ?quiet = "\<lparr> detected = False, pattern_type = None, severity = None,
                   recommendation = None \<rparr>"
  let ?r = "ascii ''clicked the same link again''"
  let ?yes = "\<lparr> completed = True, confidence = (), evidence = () \<rparr>"
  let ?no = "\<lparr> completed = False, confidence = (), evidence = () \<rparr>"
  have a: "initialize_step_execution looping_deps () = Inr ()
        \<and> get_agent_response looping_deps () () = Inr ?r
        \<and> validate_step_completion looping_deps ?r () = Inr ?yes
        \<and> detect_problematic_loops looping_deps [?r] () = Inr ?loop
        \<and> can_transition looping_deps (ascii ''in_progress'') (ascii ''completed'') ()
        \<and> execute_transition looping_deps (ascii ''completed'') = ascii ''completed''"
    by (simp add: looping_deps_def)
  have b: "initialize_step_execution refusing_deps () = Inr ()
        \<and> get_agent_response refusing_deps () () = Inr ?r
        \<and> validate_step_completion refusing_deps ?r () = Inr ?yes
        \<and> detect_problematic_loops refusing_deps [?r] () = Inr ?loop
        \<and> \<not> can_transition refusing_deps (ascii ''in_progress'') (ascii ''completed'') ()
        \<and> handle_execution_error refusing_deps
             (InvalidStateTransition (ascii ''in_progress'') (ascii ''completed'')) ()
            = repeated_result"
    by (simp add: refusing_deps_def looping_deps_def)
  have c: "initialize_step_execution looping_unapproved_deps () = Inr ()
        \<and> get_agent_response looping_unapproved_deps () () = Inr ?r
        \<and> validate_step_completion looping_unapproved_deps ?r () = Inr ?no
        \<and> detect_problematic_loops looping_unapproved_deps [?r] () = Inr ?loop
        \<and> handle_loop_detection looping_unapproved_deps ?loop () = Inr repeated_result"
    by (simp add: looping_unapproved_deps_def looping_deps_def)
  have d: "initialize_step_execution quiet_deps () = Inr ()
        \<and> get_agent_response quiet_deps () () = Inr ?r
        \<and> validate_step_completion quiet_deps ?r () = Inr ?no
        \<and> detect_problematic_loops quiet_deps [?r] () = Inr ?quiet"
    by (simp add: quiet_deps_def looping_unapproved_deps_def looping_deps_def)
  note first = loop_check_and_validation_order
    [where deps = example_deps and st = "snd first_call" and si = research_step
       and agent_response = research_done_response and v = "\<lambda>kind. rejecting_validator"
       and mdeps = looping_deps and msi = "()" and ctx = "()" and info = "()"
       and r = ?r and vr = ?yes and lr = ?loop]
  note second = loop_check_and_validation_order
    [where deps = example_deps and st = "snd first_call" and si = research_step
       and agent_response = research_done_response and v = "\<lambda>kind. rejecting_validator"
       and mdeps = refusing_deps and msi = "()" and ctx = "()" and info = "()"
       and r = ?r and vr = ?yes and lr = ?loop]
  note third = loop_check_and_validation_order
    [where deps = example_deps and st = "snd first_call" and si = research_step
       and agent_response = research_done_response and v = "\<lambda>kind. rejecting_validator"
       and mdeps = looping_unapproved_deps and msi = "()" and ctx = "()" and info = "()"
       and r = ?r and vr = ?no and lr = ?loop]
  note fourth = loop_check_and_validation_order
    [where deps = example_deps and st = "snd first_call" and si = research_step
       and agent_response = research_done_response and v = "\<lambda>kind. rejecting_validator"
       and mdeps = quiet_deps and msi = "()" and ctx = "()" and info = "()"
       and r = ?r and vr = ?no and lr = ?quiet]
  from first second third fourth a b c d second_call_repeated show ?thesis
    by (simp add: second_call_def)
qed

section \<open>Boundary settings: the entry of the task type or the default entry\<close>

lemma shipped_dom:
  "dom shipped_task_boundaries =
     {ascii ''web_research'', ascii ''image_generation'', ascii ''document_creation'',
      ascii ''code_execution'', ascii ''default''}"
  by (auto simp: shipped_task_boundaries_def dom_map_of_conv_image_fst)

lemma shipped_default_fallback:
  assumes "task_type \<notin> dom shipped_task_boundaries"
  shows "boundary_settings shipped_task_boundaries task_type = Inr default_settings"
proof -
  from assms have none: "shipped_task_boundaries task_type = None"
    by (simp add: domIff)
  have dflt: "shipped_task_boundaries (ascii ''default'') =
      Some (map_of
        [ (ascii ''max_actions'', YInt 3),
          (ascii ''time_limit'', YInt 150),
          (ascii ''success_criteria'', YList [ [0x4EFB, 0x52A1, 0x5B8C, 0x6210] ]),
          (ascii ''stop_conditions'', YList [ [0x6267, 0x884C, 0x9519, 0x8BEF] ]),
          (ascii ''autonomous_mode'', YBool True),
          (ascii ''approval_threshold'', YStr (ascii ''normal'')) ])"
    by (simp add: shipped_task_boundaries_def ascii_def)
  show ?thesis
    unfolding boundary_settings_def getitem_def dflt none
    by (simp add: default_settings_def ascii_def)
qed

lemma shipped_web_research:
  "boundary_settings shipped_task_boundaries (ascii ''web_research'')
     = Inr \<lparr> max_actions = YInt 4, time_limit = YInt 180,
             success_criteria =
               YList [ [0x627E, 0x5230, 0x4EA7, 0x54C1, 0x4FE1, 0x606F],
                       [0x83B7, 0x53D6, 0x6280, 0x672F, 0x89C4, 0x683C],
                       [0x6536, 0x96C6, 0x4EF7, 0x683C, 0x4FE1, 0x606F],
                       [0x8BBF, 0x95EE, 0x6210, 0x529F] ],
             autonomous_mode = YBool True \<rparr>"
  by (simp add: boundary_settings_def getitem_def shipped_task_boundaries_def ascii_def)

lemma shipped_image_generation:
  "boundary_settings shipped_task_boundaries (ascii ''image_generation'')
     = Inr \<lparr> max_actions = YInt 2, time_limit = YInt 60,
             success_criteria =
               YList [ [0x56FE, 0x50CF, 0x751F, 0x6210, 0x5B8C, 0x6210],
                       [0x56FE, 0x50CF, 0x8D28, 0x91CF, 0x6EE1, 0x8DB3, 0x8981, 0x6C42],
                       [0x751F, 0x6210, 0x4EFB, 0x52A1, 0x5DF2, 0x5B8C, 0x6210] ],
             autonomous_mode = YBool True \<rparr>"
  by (simp add: boundary_settings_def getitem_def shipped_task_boundaries_def ascii_def)

lemma shipped_document_creation:
  "boundary_settings shipped_task_boundaries (ascii ''document_creation'')
     = Inr \<lparr> max_actions = YInt 3, time_limit = YInt 120,
             success_criteria =
               YList [ [0x6587, 0x6863, 0x521B, 0x5EFA, 0x5B8C, 0x6210],
                       [0x5185, 0x5BB9, 0x683C, 0x5F0F, 0x6B63, 0x786E],
                       [0x4FDD, 0x5B58, 0x6210, 0x529F] ],
             autonomous_mode = YBool True \<rparr>"
  by (simp add: boundary_settings_def getitem_def shipped_task_boundaries_def ascii_def)

lemma shipped_code_execution:
  "boundary_settings shipped_task_boundaries (ascii ''code_execution'')
     = Inr \<lparr> max_actions = YInt 5, time_limit = YInt 300,
             success_criteria =
               YList [ [0x4EE3, 0x7801, 0x6267, 0x884C, 0x6210, 0x529F],
                       [0x8F93, 0x51FA, 0x7ED3, 0x679C, 0x6B63, 0x786E] ],
             autonomous_mode = YBool False \<rparr>"
  by (simp add: boundary_settings_def getitem_def shipped_task_boundaries_def ascii_def)

lemma shipped_default:
  "boundary_settings shipped_task_boundaries (ascii ''default'') = Inr default_settings"
  by (simp add: boundary_settings_def getitem_def shipped_task_boundaries_def ascii_def
        default_settings_def)

lemma shipped_total:
  "\<exists>settings. boundary_settings shipped_task_boundaries task_type = Inr settings"
proof (cases "task_type \<in> dom shipped_task_boundaries")
  case False
  then show ?thesis by (simp add: shipped_default_fallback)
next
  case True
  then consider "task_type = ascii ''web_research''" | "task_type = ascii ''image_generation''"
    | "task_type = ascii ''document_creation''" | "task_type = ascii ''code_execution''"
    | "task_type = ascii ''default''"
    by (auto simp: shipped_dom)
  then show ?thesis
    by cases
       (simp_all only: shipped_web_research shipped_image_generation shipped_document_creation
          shipped_code_execution shipped_default sum.inject simp_thms)
qed

lemma setup_boundaries_settings:
  "map_sum id fst (setup_boundaries ident sidx config monitors si)
     = boundary_settings config (ident si)"
  by (simp add: setup_boundaries_def split: sum.splits)

lemma boundary_settings_no_default:
  "config (ascii ''default'') = None
     \<Longrightarrow> boundary_settings config task_type = Inl (KeyError (ascii ''default''))"
  by (simp add: boundary_settings_def getitem_def)

lemma boundary_settings_entry:
  assumes "config (ascii ''default'') = Some dflt"
    and "entry = (case config task_type of Some c \<Rightarrow> c | None \<Rightarrow> dflt)"
    and "entry (ascii ''max_actions'') = Some a"
    and "entry (ascii ''time_limit'') = Some b"
    and "entry (ascii ''success_criteria'') = Some c"
  shows "boundary_settings config task_type
           = Inr \<lparr> max_actions = a, time_limit = b, success_criteria = c,
                   autonomous_mode = (case entry (ascii ''autonomous_mode'') of
                                        Some v \<Rightarrow> v | None \<Rightarrow> YBool False) \<rparr>"
  using assms by (simp add: boundary_settings_def getitem_def Let_def)

lemma printed_no_default: "printed_task_boundaries (ascii ''default'') = None"
  by (simp add: printed_task_boundaries_def ascii_def)

text \<open>
  Claim C9, as stated, fails: \<open>setup_boundaries\<close> is not total. On the configuration
  printed beside the class, which has no entry \<open>default\<close>, it raises \<open>KeyError\<close> for
  the task type \<open>web_research\<close>, which has an entry of its own.
\<close>

theorem setup_boundaries_raises_without_default_counterexample:
  "printed_task_boundaries (ascii ''web_research'') \<noteq> None
   \<and> setup_boundaries (\<lambda>s. s) (\<lambda>s. 0) printed_task_boundaries Map.empty
         (ascii ''web_research'')
       = Inl (KeyError (ascii ''default''))"
  by (simp add: setup_boundaries_def boundary_settings_no_default printed_no_default)
     (simp add: printed_task_boundaries_def ascii_def)

text \<open>
  Claim C9, amended. On a configuration without an entry \<open>default\<close>
  \<open>setup_boundaries\<close> raises \<open>KeyError\<close> for every task type. On a configuration with
  that entry it returns the limits of the entry of the task type, or of the entry
  \<open>default\<close> when the task type has none, provided the entry holds \<open>max_actions\<close>,
  \<open>time_limit\<close> and \<open>success_criteria\<close>; the autonomous mode is off when the entry
  does not give it. The limits depend on the configuration and the task type only: not on
  the monitors, which gain the monitor of the step and nothing else. Under the shipped
  configuration this is total: 4 actions, 180 seconds, autonomous for \<open>web_research\<close>;
  2, 60, autonomous for \<open>image_generation\<close>; 3, 120, autonomous for
  \<open>document_creation\<close>; 5, 300, not autonomous for \<open>code_execution\<close>; and the default
  3, 150, autonomous for \<open>default\<close> and for every task type without an entry.
\<close>

theorem boundary_lookup_entry_or_default:
  "(config (ascii ''default'') = None
      \<longrightarrow> setup_boundaries ident sidx config monitors si = Inl (KeyError (ascii ''default'')))
   \<and> (config (ascii ''default'') = Some dflt
        \<and> entry = (case config (ident si) of Some c \<Rightarrow> c | None \<Rightarrow> dflt)
        \<and> entry (ascii ''max_actions'') = Some a
        \<and> entry (ascii ''time_limit'') = Some b
        \<and> entry (ascii ''success_criteria'') = Some c
      \<longrightarrow> setup_boundaries ident sidx config monitors si
            = Inr (\<lparr> max_actions = a, time_limit = b, success_criteria = c,
                     autonomous_mode = (case entry (ascii ''autonomous_mode'') of
                                          Some v \<Rightarrow> v | None \<Rightarrow> YBool False) \<rparr>,
                   monitors(sidx si \<mapsto>
                     \<lparr> max_actions = a, time_limit = b, success_criteria = c,
                       autonomous_mode = (case entry (ascii ''autonomous_mode'') of
                                            Some v \<Rightarrow> v | None \<Rightarrow> YBool False) \<rparr>)))
   \<and> (ident si = ident si'
      \<longrightarrow> map_sum id fst (setup_boundaries ident sidx config monitors si)
            = map_sum id fst (setup_boundaries ident sidx config monitors' si'))
   \<and> (\<exists>settings. setup_boundaries ident sidx shipped_task_boundaries monitors si
         = Inr (settings, monitors(sidx si \<mapsto> settings)))
   \<and> (ident si = ascii ''web_research''
      \<longrightarrow> map_sum id fst (setup_boundaries ident sidx shipped_task_boundaries monitors si)
            = Inr \<lparr> max_actions = YInt 4, time_limit = YInt 180,
                    success_criteria =
                      YList [ [0x627E, 0x5230, 0x4EA7, 0x54C1, 0x4FE1, 0x606F],
                              [0x83B7, 0x53D6, 0x6280, 0x672F, 0x89C4, 0x683C],
                              [0x6536, 0x96C6, 0x4EF7, 0x683C, 0x4FE1, 0x606F],
                              [0x8BBF, 0x95EE, 0x6210, 0x529F] ],
                    autonomous_mode = YBool True \<rparr>)
   \<and> (ident si = ascii ''image_generation''
      \<longrightarrow> map_sum id fst (setup_boundaries ident sidx shipped_task_boundaries monitors si)
            = Inr \<lparr> max_actions = YInt 2, time_limit = YInt 60,
                    success_criteria =
                      YList [ [0x56FE, 0x50CF, 0x751F, 0x6210, 0x5B8C, 0x6210],
                              [0x56FE, 0x50CF, 0x8D28, 0x91CF, 0x6EE1, 0x8DB3, 0x8981, 0x6C42],
                              [0x751F, 0x6210, 0x4EFB, 0x52A1, 0x5DF2, 0x5B8C, 0x6210] ],
                    autonomous_mode = YBool True \<rparr>)
   \<and> (ident si = ascii ''document_creation''
      \<longrightarrow> map_sum id fst (setup_boundaries ident sidx shipped_task_boundaries monitors si)
            = Inr \<lparr> max_actions = YInt 3, time_limit = YInt 120,
                    success_criteria =
                      YList [ [0x6587, 0x6863, 0x521B, 0x5EFA, 0x5B8C, 0x6210],
                              [0x5185, 0x5BB9, 0x683C, 0x5F0F, 0x6B63, 0x786E],
                              [0x4FDD, 0x5B58, 0x6210, 0x529F] ],
                    autonomous_mode = YBool True \<rparr>)
   \<and> (ident si = ascii ''code_execution''
      \<longrightarrow> map_sum id fst (setup_boundaries ident sidx shipped_task_boundaries monitors si)
            = Inr \<lparr> max_actions = YInt 5, time_limit = YInt 300,
                    success_criteria =
                      YList [ [0x4EE3, 0x7801, 0x6267, 0x884C, 0x6210, 0x529F],
                              [0x8F93, 0x51FA, 0x7ED3, 0x679C, 0x6B63, 0x786E] ],
                    autonomous_mode = YBool False \<rparr>)
   \<and> (ident si \<notin> {ascii ''web_research'', ascii ''image_generation'',
                      ascii ''document_creation'', ascii ''code_execution''}
      \<longrightarrow> map_sum id fst (setup_boundaries ident sidx shipped_task_boundaries monitors si)
            = Inr \<lparr> max_actions = YInt 3, time_limit = YInt 150,
                    success_criteria = YList [ [0x4EFB, 0x52A1, 0x5B8C, 0x6210] ],
                    autonomous_mode = YBool True \<rparr>)"
proof (intro conjI impI)
  assume "config (ascii ''default'') = None"
  then show "setup_boundaries ident sidx config monitors si = Inl (KeyError (ascii ''default''))"
    by (simp add: setup_boundaries_def boundary_settings_no_default)
next
  assume h: "config (ascii ''default'') = Some dflt
        \<and> entry = (case config (ident si) of Some c \<Rightarrow> c | None \<Rightarrow> dflt)
        \<and> entry (ascii ''max_actions'') = Some a
        \<and> entry (ascii ''time_limit'') = Some b
        \<and> entry (ascii ''success_criteria'') = Some c"
  then have "boundary_settings config (ident si)
           = Inr \<lparr> max_actions = a, time_limit = b, success_criteria = c,
                   autonomous_mode = (case entry (ascii ''autonomous_mode'') of
                                        Some v \<Rightarrow> v | None \<Rightarrow> YBool False) \<rparr>"
    using boundary_settings_entry [of config dflt entry "ident si" a b c] by blast
  then show "setup_boundaries ident sidx config monitors si
            = Inr (\<lparr> max_actions = a, time_limit = b, success_criteria = c,
                     autonomous_mode = (case entry (ascii ''autonomous_mode'') of
                                          Some v \<Rightarrow> v | None \<Rightarrow> YBool False) \<rparr>,
                   monitors(sidx si \<mapsto>
                     \<lparr> max_actions = a, time_limit = b, success_criteria = c,
                       autonomous_mode = (case entry (ascii ''autonomous_mode'') of
                                            Some v \<Rightarrow> v | None \<Rightarrow> YBool False) \<rparr>))"
    by (simp add: setup_boundaries_def)
next
  assume "ident si = ident si'"
  then show "map_sum id fst (setup_boundaries ident sidx config monitors si)
            = map_sum id fst (setup_boundaries ident sidx config monitors' si')"
    by (simp add: setup_boundaries_settings)
next
  obtain settings where "boundary_settings shipped_task_boundaries (ident si) = Inr settings"
    using shipped_total by blast
  then show "\<exists>settings. setup_boundaries ident sidx shipped_task_boundaries monitors si
         = Inr (settings, monitors(sidx si \<mapsto> settings))"
    by (simp add: setup_boundaries_def)
next
  assume "ident si = ascii ''web_research''"
  then show "map_sum id fst (setup_boundaries ident sidx shipped_task_boundaries monitors si)
            = Inr \<lparr> max_actions = YInt 4, time_limit = YInt 180,
                    success_criteria =
                      YList [ [0x627E, 0x5230, 0x4EA7, 0x54C1, 0x4FE1, 0x606F],
                              [0x83B7, 0x53D6, 0x6280, 0x672F, 0x89C4, 0x683C],
                              [0x6536, 0x96C6, 0x4EF7, 0x683C, 0x4FE1, 0x606F],
                              [0x8BBF, 0x95EE, 0x6210, 0x529F] ],
                    autonomous_mode = YBool True \<rparr>"
    by (simp only: setup_boundaries_settings shipped_web_research)
next
  assume "ident si = ascii ''image_generation''"
  then show "map_sum id fst (setup_boundaries ident sidx shipped_task_boundaries monitors si)
            = Inr \<lparr> max_actions = YInt 2, time_limit = YInt 60,
                    success_criteria =
                      YList [ [0x56FE, 0x50CF, 0x751F, 0x6210, 0x5B8C, 0x6210],
                              [0x56FE, 0x50CF, 0x8D28, 0x91CF, 0x6EE1, 0x8DB3, 0x8981, 0x6C42],
                              [0x751F, 0x6210, 0x4EFB, 0x52A1, 0x5DF2, 0x5B8C, 0x6210] ],
                    autonomous_mode = YBool True \<rparr>"
    by (simp only: setup_boundaries_settings shipped_image_generation)
next
  assume "ident si = ascii ''document_creation''"
  then show "map_sum id fst (setup_boundaries ident sidx shipped_task_boundaries monitors si)
            = Inr \<lparr> max_actions = YInt 3, time_limit = YInt 120,
                    success_criteria =
                      YList [ [0x6587, 0x6863, 0x521B, 0x5EFA, 0x5B8C, 0x6210],
                              [0x5185, 0x5BB9, 0x683C, 0x5F0F, 0x6B63, 0x786E],
                              [0x4FDD, 0x5B58, 0x6210, 0x529F] ],
                    autonomous_mode = YBool True \<rparr>"
    by (simp only: setup_boundaries_settings shipped_document_creation)
next
  assume "ident si = ascii ''code_execution''"
  then show "map_sum id fst (setup_boundaries ident sidx shipped_task_boundaries monitors si)
            = Inr \<lparr> max_actions = YInt 5, time_limit = YInt 300,
                    success_criteria =
                      YList [ [0x4EE3, 0x7801, 0x6267, 0x884C, 0x6210, 0x529F],
                              [0x8F93, 0x51FA, 0x7ED3, 0x679C, 0x6B63, 0x786E] ],
                    autonomous_mode = YBool False \<rparr>"
    by (simp only: setup_boundaries_settings shipped_code_execution)
next
  assume n: "ident si \<notin> {ascii ''web_research'', ascii ''image_generation'',
                      ascii ''document_creation'', ascii ''code_execution''}"
  have "boundary_settings shipped_task_boundaries (ident si) = Inr default_settings"
  proof (cases "ident si = ascii ''default''")
    case True
    then show ?thesis by (simp only: shipped_default)
  next
    case False
    with n have "ident si \<notin> dom shipped_task_boundaries"
      by (simp add: shipped_dom)
    then show ?thesis by (rule shipped_default_fallback)
  qed
  then show "map_sum id fst (setup_boundaries ident sidx shipped_task_boundaries monitors si)
            = Inr \<lparr> max_actions = YInt 3, time_limit = YInt 150,
                    success_criteria = YList [ [0x4EFB, 0x52A1, 0x5B8C, 0x6210] ],
                    autonomous_mode = YBool True \<rparr>"
    by (simp add: setup_boundaries_settings default_settings_def)
qed

theorem boundary_lookup_entry_or_default_witness:
  "printed_task_boundaries (ascii ''default'') = None
   \<and> setup_boundaries (\<lambda>s. s) (\<lambda>s. 4) printed_task_boundaries Map.empty
         (ascii ''image_generation'')
       = Inl (KeyError (ascii ''default''))
   \<and> minimal_task_boundaries (ascii ''default'') = Some minimal_entry
   \<and> setup_boundaries (\<lambda>s. s) (\<lambda>s. 4) minimal_task_boundaries Map.empty
         (ascii ''web_research'')
       = Inr (\<lparr> max_actions = YInt 1, time_limit = YInt 30, success_criteria = YList [],
                autonomous_mode = YBool False \<rparr>,
              [4 \<mapsto> \<lparr> max_actions = YInt 1, time_limit = YInt 30, success_criteria = YList [],
                       autonomous_mode = YBool False \<rparr>])
   \<and> map_sum id fst (setup_boundaries (\<lambda>s. s) (\<lambda>s. 4) shipped_task_boundaries Map.empty
         (ascii ''code_execution''))
       = Inr \<lparr> max_actions = YInt 5, time_limit = YInt 300,
               success_criteria =
                 YList [ [0x4EE3, 0x7801, 0x6267, 0x884C, 0x6210, 0x529F],
                         [0x8F93, 0x51FA, 0x7ED3, 0x679C, 0x6B63, 0x786E] ],
               autonomous_mode = YBool False \<rparr>
   \<and> map_sum id fst (setup_boundaries (\<lambda>s. s) (\<lambda>s. 4) shipped_task_boundaries Map.empty
         (ascii ''code_execution''))
       = map_sum id fst (setup_boundaries (\<lambda>s. s) (\<lambda>s. 4) shipped_task_boundaries
           [7 \<mapsto> default_settings] (ascii ''code_execution''))
   \<and> ascii ''format_conversion'' \<notin> {ascii ''web_research'', ascii ''image_generation'',
        ascii ''document_creation'', ascii ''code_execution''}
   \<and> setup_boundaries (\<lambda>s. s) (\<lambda>s. 4) shipped_task_boundaries Map.empty
         (ascii ''format_conversion'')
       = Inr (default_settings, [4 \<mapsto> default_settings])"
proof -
  have n: "ascii ''format_conversion'' \<notin> {ascii ''web_research'', ascii ''image_generation'',
        ascii ''document_creation'', ascii ''code_execution''}"
    by (simp add: ascii_def)
  have md: "minimal_task_boundaries (ascii ''default'') = Some minimal_entry"
    by (simp add: minimal_task_boundaries_def)
  have me: "minimal_entry
              = (case minimal_task_boundaries (ascii ''web_research'') of
                   Some c \<Rightarrow> c | None \<Rightarrow> minimal_entry)
          \<and> minimal_entry (ascii ''max_actions'') = Some (YInt 1)
          \<and> minimal_entry (ascii ''time_limit'') = Some (YInt 30)
          \<and> minimal_entry (ascii ''success_criteria'') = Some (YList [])
          \<and> minimal_entry (ascii ''autonomous_mode'') = None"
    by (simp add: minimal_task_boundaries_def minimal_entry_def ascii_def)
  note printed = boundary_lookup_entry_or_default
    [where config = printed_task_boundaries and ident = "\<lambda>s. s" and sidx = "\<lambda>s. 4"
       and monitors = Map.empty and si = "ascii ''image_generation''"]
  note minimal = boundary_lookup_entry_or_default
    [where config = minimal_task_boundaries and ident = "\<lambda>s. s" and sidx = "\<lambda>s. 4"
       and monitors = Map.empty and si = "ascii ''web_research''" and dflt = minimal_entry
       and entry = minimal_entry and a = "YInt 1" and b = "YInt 30" and c = "YList []"]
  note code = boundary_lookup_entry_or_default
    [where config = shipped_task_boundaries and ident = "\<lambda>s. s" and sidx = "\<lambda>s. 4"
       and monitors = Map.empty and si = "ascii ''code_execution''"
       and si' = "ascii ''code_execution''" and monitors' = "[7 \<mapsto> default_settings]"]
  note other = boundary_lookup_entry_or_default
    [where config = shipped_task_boundaries and ident = "\<lambda>s. s" and sidx = "\<lambda>s. 4"
       and monitors = Map.empty and si = "ascii ''format_conversion''"]
  from printed printed_no_default
  have p: "setup_boundaries (\<lambda>s. s) (\<lambda>s. 4) printed_task_boundaries Map.empty
         (ascii ''image_generation'') = Inl (KeyError (ascii ''default''))"
    by blast
  from minimal md me
  have m: "setup_boundaries (\<lambda>s. s) (\<lambda>s. 4) minimal_task_boundaries Map.empty
         (ascii ''web_research'')
       = Inr (\<lparr> max_actions = YInt 1, time_limit = YInt 30, success_criteria = YList [],
                autonomous_mode = YBool False \<rparr>,
              [4 \<mapsto> \<lparr> max_actions = YInt 1, time_limit = YInt 30, success_criteria = YList [],
                       autonomous_mode = YBool False \<rparr>])"
    by simp
  from code
  have c: "map_sum id fst (setup_boundaries (\<lambda>s. s) (\<lambda>s. 4) shipped_task_boundaries Map.empty
         (ascii ''code_execution''))
       = Inr \<lparr> max_actions = YInt 5, time_limit = YInt 300,
               success_criteria =
                 YList [ [0x4EE3, 0x7801, 0x6267, 0x884C, 0x6210, 0x529F],
                         [0x8F93, 0x51FA, 0x7ED3, 0x679C, 0x6B63, 0x786E] ],
               autonomous_mode = YBool False \<rparr>"
    by blast
  from code
  have d: "map_sum id fst (setup_boundaries (\<lambda>s. s) (\<lambda>s. 4) shipped_task_boundaries Map.empty
         (ascii ''code_execution''))
       = map_sum id fst (setup_boundaries (\<lambda>s. s) (\<lambda>s. 4) shipped_task_boundaries
           [7 \<mapsto> default_settings] (ascii ''code_execution''))"
    by blast
  from other n
  have o: "(\<exists>settings. setup_boundaries (\<lambda>s. s) (\<lambda>s. 4) shipped_task_boundaries Map.empty
              (ascii ''format_conversion'') = Inr (settings, [4 \<mapsto> settings]))
     \<and> map_sum id fst (setup_boundaries (\<lambda>s. s) (\<lambda>s. 4) shipped_task_boundaries Map.empty
         (ascii ''format_conversion'')) = Inr default_settings"
    by (simp add: default_settings_def)
  then have "setup_boundaries (\<lambda>s. s) (\<lambda>s. 4) shipped_task_boundaries Map.empty
         (ascii ''format_conversion'') = Inr (default_settings, [4 \<mapsto> default_settings])"
    by auto
  with p m c d n md printed_no_default show ?thesis
    by blast
qed

section \<open>Loop detector under the default configuration\<close>

lemma count_ge_two_if_not_distinct:
  "\<not> distinct xs \<Longrightarrow> \<exists>x \<in> set xs. 2 \<le> count_list xs x"
proof (induction xs)
  case Nil
  then show ?case by simp
next
  case (Cons y ys)
  show ?case
  proof (cases "y \<in> set ys")
    case True
    then have "count_list ys y \<noteq> 0" by (simp add: count_list_0_iff)
    then have "2 \<le> count_list (y # ys) y" by simp
    then show ?thesis by auto
  next
    case False
    with Cons.prems have "\<not> distinct ys" by simp
    then obtain x where "x \<in> set ys" "2 \<le> count_list ys x" using Cons.IH by blast
    then have "x \<in> set (y # ys) \<and> 2 \<le> count_list (y # ys) x" by simp
    then show ?thesis by blast
  qed
qed

text \<open>
  Claim C6. Under the default configuration (one repeat is a loop) the loop detector
  reports a loop for every history of a step attempt in which an action signature occurs
  twice.
\<close>

theorem detect_flags_repeated_signature:
  assumes "\<not> distinct (map signature history)"
  shows "loopDetected (detect default_loop_config history) = True"
proof -
  from assms obtain sig where sig: "sig \<in> set (map signature history)"
    and cnt: "2 \<le> count_list (map signature history) sig"
    using count_ge_two_if_not_distinct by blast
  from sig obtain a where a: "a \<in> set history" "signature a = sig" by auto
  with cnt have "repeats history (signature a) \<ge> repeat_threshold default_loop_config"
    by (simp add: repeats_def default_loop_config_def)
  with a(1) have "filter (\<lambda>a. repeats history (signature a) \<ge> repeat_threshold default_loop_config)
                    history \<noteq> []"
    by (auto simp: filter_empty_conv)
  then show ?thesis
    by (simp add: detect_def Let_def)
qed

theorem detect_flags_repeated_signature_witness:
  "\<not> distinct (map signature repeating_actions)
   \<and> loopDetected (detect default_loop_config repeating_actions) = True"
proof -
  have h: "\<not> distinct (map signature repeating_actions)"
    by (simp add: repeating_actions_def)
  from detect_flags_repeated_signature [OF h] h show ?thesis by simp
qed

end
